theory Spec2Isabelle
  imports Main "HOL-Library.Sublist"
begin

section \<open>Python strings and paths\<close>

text \<open>
  The program is \<^verbatim>\<open>run-exps.py\<close>. Python's \<^verbatim>\<open>str\<close> is modelled as \<^typ>\<open>string\<close> and
  Python's integers as \<^typ>\<open>int\<close>. The library functions the program calls
  (\<^verbatim>\<open>str\<close>, \<^verbatim>\<open>str.join\<close>, \<^verbatim>\<open>os.path.join\<close>, \<^verbatim>\<open>os.path.splitext\<close>) are written out
  as the interpreter computes them on POSIX.
\<close>

fun str_nat :: "nat \<Rightarrow> string" where
  "str_nat n =
     (if n < 10 then [''0123456789'' ! n]
      else str_nat (n div 10) @ [''0123456789'' ! (n mod 10)])"

declare str_nat.simps [simp del]

definition str_int :: "int \<Rightarrow> string" where
  "str_int i = (if i < 0 then CHR ''-'' # str_nat (nat (- i)) else str_nat (nat i))"

fun join :: "string \<Rightarrow> string list \<Rightarrow> string" where
  "join sep [] = []"
| "join sep [x] = x"
| "join sep (x # y # ys) = x @ sep @ join sep (y # ys)"

definition startswith :: "string \<Rightarrow> string \<Rightarrow> bool" where
  "startswith s pre = prefix pre s"

definition endswith :: "string \<Rightarrow> string \<Rightarrow> bool" where
  "endswith s suf = suffix suf s"

definition os_path_join :: "string \<Rightarrow> string \<Rightarrow> string" where
  "os_path_join a b =
     (if startswith b ''/'' then b
      else if a = [] \<or> endswith a ''/'' then a @ b
      else a @ ''/'' @ b)"

primrec rfind_from :: "char \<Rightarrow> string \<Rightarrow> int \<Rightarrow> int \<Rightarrow> int" where
  "rfind_from c [] i found = found"
| "rfind_from c (x # xs) i found = rfind_from c xs (i + 1) (if x = c then i else found)"

definition rfind :: "string \<Rightarrow> char \<Rightarrow> int" where
  "rfind p c = rfind_from c p 0 (- 1)"

definition splitext :: "string \<Rightarrow> string \<times> string" where
  "splitext p =
     (let sepIndex = rfind p CHR ''/'';
          dotIndex = rfind p CHR ''.''
      in if dotIndex > sepIndex
            \<and> list_ex (\<lambda>c. c \<noteq> CHR ''.'')
                 (take (nat (dotIndex - (sepIndex + 1))) (drop (nat (sepIndex + 1)) p))
         then (take (nat dotIndex) p, drop (nat dotIndex) p)
         else (p, []))"

section \<open>Symbolic-parameter profiles\<close>

record SymArgs =
  sym_args_list :: "int list list"
  sym_files :: "(int \<times> int) option"
  sym_stdin :: "int option"

definition argument_list :: "SymArgs \<Rightarrow> string list" where
  "argument_list self =
     (let args = map (\<lambda>sym_args. ''--sym-args '' @ join '' '' (map str_int sym_args))
                   (sym_args_list self);
          args = (case sym_files self of
                    None \<Rightarrow> args
                  | Some (f0, f1) \<Rightarrow>
                      args @ [''--sym-files '' @ str_int f0 @ '' '' @ str_int f1]);
          args = (case sym_stdin self of
                    None \<Rightarrow> args
                  | Some n \<Rightarrow> args @ [''--sym-stdin '' @ str_int n])
      in args @ [''--sym-stdout''])"

definition mkSymArgs :: "int list list \<Rightarrow> (int \<times> int) option \<Rightarrow> int option \<Rightarrow> SymArgs" where
  "mkSymArgs l f s = \<lparr>sym_args_list = l, sym_files = f, sym_stdin = s\<rparr>"

text \<open>
  \<^verbatim>\<open>KLEE.SYM_ARGS\<close> is a \<^verbatim>\<open>defaultdict\<close>: a dictionary together with a factory. Reading a
  missing key calls the factory, stores the new value under the key and returns it.
\<close>

definition SYM_ARGS_default :: SymArgs where
  "SYM_ARGS_default = mkSymArgs [[0, 1, 10], [0, 2, 2]] (Some (1, 8)) (Some 8)"

definition SYM_ARGS_initial :: "string \<rightharpoonup> SymArgs" where
  "SYM_ARGS_initial = map_of
     [(''dd'', mkSymArgs [[0, 3, 10]] (Some (1, 8)) (Some 8)),
      (''dircolors'', mkSymArgs [[0, 3, 10]] (Some (2, 12)) (Some 12)),
      (''echo'', mkSymArgs [[0, 4, 300]] (Some (2, 30)) (Some 30)),
      (''expr'', mkSymArgs [[0, 1, 10], [0, 3, 2]] None None),
      (''mknod'', mkSymArgs [[0, 1, 10], [0, 3, 2]] (Some (1, 8)) (Some 8)),
      (''od'', mkSymArgs [[0, 3, 10]] (Some (2, 12)) (Some 12)),
      (''pathchk'', mkSymArgs [[0, 1, 2], [0, 1, 300]] (Some (1, 8)) (Some 8)),
      (''printf'', mkSymArgs [[0, 3, 10]] (Some (2, 12)) (Some 12))]"

definition defaultdict_getitem ::
  "(string \<rightharpoonup> SymArgs) \<Rightarrow> string \<Rightarrow> SymArgs \<times> (string \<rightharpoonup> SymArgs)" where
  "defaultdict_getitem d k =
     (case d k of
        Some v \<Rightarrow> (v, d)
      | None \<Rightarrow> (SYM_ARGS_default, d(k \<mapsto> SYM_ARGS_default)))"

section \<open>The file system, the clock and the trace\<close>

text \<open>
  The file system is a map from a path, as its list of components, to a node: a directory
  or a regular file with its text. A path string is resolved by splitting it at \<^verbatim>\<open>/\<close>
  and dropping empty and \<^verbatim>\<open>.\<close> components; relative and absolute paths share one root,
  \<^verbatim>\<open>..\<close>, symbolic links and permissions are not modelled. The root is always a directory.
\<close>

datatype node = Dir | File string

type_synonym filesys = "string list \<rightharpoonup> node"

datatype error =
    FileExistsError
  | FileNotFoundError
  | NotADirectoryError
  | IsADirectoryError
  | OSError
  | OverflowError
  | TimeoutExpired
  | NeverReturns

text \<open>
  \<^const>\<open>OSError\<close> stands for an \<^verbatim>\<open>OSError\<close> that is none of its subclasses above
  (\<^verbatim>\<open>rmdir\<close> refusing a path that ends in \<^verbatim>\<open>.\<close>). \<^const>\<open>NeverReturns\<close> is not a Python
  exception: it is the outcome of a call that blocks for ever, after which no later
  statement runs.
\<close>

fun split_on :: "char \<Rightarrow> string \<Rightarrow> string list" where
  "split_on c [] = [[]]"
| "split_on c (x # xs) =
     (if x = c then [] # split_on c xs
      else (case split_on c xs of
              [] \<Rightarrow> [[x]]
            | w # ws \<Rightarrow> (x # w) # ws))"

definition path_components :: "string \<Rightarrow> string list" where
  "path_components p = filter (\<lambda>s. s \<noteq> [] \<and> s \<noteq> ''.'') (split_on CHR ''/'' p)"

definition node_at :: "filesys \<Rightarrow> string list \<Rightarrow> node option" where
  "node_at fs cs = (if cs = [] then Some Dir else fs cs)"

definition is_file :: "node option \<Rightarrow> bool" where
  "is_file n = (case n of Some (File _) \<Rightarrow> True | _ \<Rightarrow> False)"

definition ancestors :: "string list \<Rightarrow> string list list" where
  "ancestors cs = butlast (prefixes cs)"

definition stat :: "filesys \<Rightarrow> string list \<Rightarrow> error + node" where
  "stat fs cs =
     (if list_ex (\<lambda>q. is_file (node_at fs q)) (ancestors cs) then Inl NotADirectoryError
      else (case node_at fs cs of
              None \<Rightarrow> Inl FileNotFoundError
            | Some n \<Rightarrow> Inr n))"

definition makedirs_fs :: "filesys \<Rightarrow> string list \<Rightarrow> bool \<Rightarrow> error + filesys" where
  "makedirs_fs fs cs exist_ok =
     (case stat fs cs of
        Inr Dir \<Rightarrow> if exist_ok then Inr fs else Inl FileExistsError
      | Inr (File _) \<Rightarrow> Inl FileExistsError
      | Inl e \<Rightarrow>
          if e = FileNotFoundError
          then Inr (\<lambda>q. if q \<noteq> [] \<and> prefix q cs then Some Dir else fs q)
          else Inl e)"

definition rmtree_fs :: "filesys \<Rightarrow> string list \<Rightarrow> error + filesys" where
  "rmtree_fs fs cs =
     (case stat fs cs of
        Inl e \<Rightarrow> Inl e
      | Inr (File _) \<Rightarrow> Inl NotADirectoryError
      | Inr Dir \<Rightarrow> Inr (\<lambda>q. if prefix cs q then None else fs q))"

definition read_fs :: "filesys \<Rightarrow> string list \<Rightarrow> error + string" where
  "read_fs fs cs =
     (case stat fs cs of
        Inl e \<Rightarrow> Inl e
      | Inr Dir \<Rightarrow> Inl IsADirectoryError
      | Inr (File text) \<Rightarrow> Inr text)"

definition write_fs :: "filesys \<Rightarrow> string list \<Rightarrow> string \<Rightarrow> error + filesys" where
  "write_fs fs cs text =
     (if cs = [] then Inl IsADirectoryError
      else (case stat fs (butlast cs) of
              Inl e \<Rightarrow> Inl e
            | Inr (File _) \<Rightarrow> Inl NotADirectoryError
            | Inr Dir \<Rightarrow>
                (case node_at fs cs of
                   Some Dir \<Rightarrow> Inl IsADirectoryError
                 | _ \<Rightarrow> Inr (fs(cs \<mapsto> File text)))))"


datatype event =
    Printed string
  | Spawned string string
  | Killed
  | Exited
  | RanKleeStats string
  | OpenedForReading string
  | OpenedForWriting string

text \<open>
  The state of the process: the file system, the two class attributes of \<^verbatim>\<open>KLEE\<close> that
  change while the program runs (\<^verbatim>\<open>SYM_ARGS\<close>, \<^verbatim>\<open>BENCHMARKS_PATH\<close>), a logical clock in
  seconds, and the trace of what the program did, each event with the clock's reading.
  Text printed by \<^verbatim>\<open>log\<close> and \<^verbatim>\<open>print\<close> is recorded in the trace.
\<close>

record world =
  files :: filesys
  SYM_ARGS :: "string \<rightharpoonup> SymArgs"
  BENCHMARKS_PATH :: string
  clock :: int
  trace :: "(int \<times> event) list"

type_synonym 'a io = "world \<Rightarrow> (error + 'a) \<times> world"

definition io_return :: "'a \<Rightarrow> 'a io" where
  "io_return a w = (Inr a, w)"

definition io_bind :: "'a io \<Rightarrow> ('a \<Rightarrow> 'b io) \<Rightarrow> 'b io" where
  "io_bind m f w = (case m w of (Inl e, w') \<Rightarrow> (Inl e, w') | (Inr a, w') \<Rightarrow> f a w')"

definition emit :: "event \<Rightarrow> world \<Rightarrow> world" where
  "emit e w = w\<lparr>trace := trace w @ [(clock w, e)]\<rparr>"

definition log :: "string \<Rightarrow> unit io" where
  "log text w = (Inr (), emit (Printed text) w)"

definition os_makedirs :: "string \<Rightarrow> bool \<Rightarrow> unit io" where
  "os_makedirs p exist_ok w =
     (case makedirs_fs (files w) (path_components p) exist_ok of
        Inl e \<Rightarrow> (Inl e, w)
      | Inr fs \<Rightarrow> (Inr (), w\<lparr>files := fs\<rparr>))"

text \<open>
  \<^verbatim>\<open>shutil.rmtree\<close> removes what is below the directory and then the directory itself
  with \<^verbatim>\<open>rmdir\<close>, which refuses a path whose last component is \<^verbatim>\<open>.\<close>: the directory is
  then left, empty, and the call raises.
\<close>

definition last_component :: "string \<Rightarrow> string" where
  "last_component p =
     (case rev (filter (\<lambda>s. s \<noteq> []) (split_on CHR ''/'' p)) of
        [] \<Rightarrow> []
      | c # _ \<Rightarrow> c)"

definition shutil_rmtree :: "string \<Rightarrow> bool \<Rightarrow> unit io" where
  "shutil_rmtree p ignore_errors w =
     (case rmtree_fs (files w) (path_components p) of
        Inl e \<Rightarrow> if ignore_errors then (Inr (), w) else (Inl e, w)
      | Inr fs \<Rightarrow>
          if last_component p = ''.''
          then (if ignore_errors
                then (Inr (), w\<lparr>files := fs(path_components p \<mapsto> Dir)\<rparr>)
                else (Inl OSError, w\<lparr>files := fs(path_components p \<mapsto> Dir)\<rparr>))
          else (Inr (), w\<lparr>files := fs\<rparr>))"

definition os_path_exists :: "string \<Rightarrow> world \<Rightarrow> bool" where
  "os_path_exists p w = (case stat (files w) (path_components p) of Inl _ \<Rightarrow> False | Inr _ \<Rightarrow> True)"

definition LF :: char where
  "LF = CHR 0x0A"

definition CR :: char where
  "CR = CHR 0x0D"

text \<open>
  A file opened in text mode is read with universal newlines: \<^verbatim>\<open>\r\n\<close> and \<^verbatim>\<open>\r\<close> arrive
  as \<^verbatim>\<open>\n\<close>. \<^verbatim>\<open>readlines\<close> cuts the text after every \<^verbatim>\<open>\n\<close>; \<^verbatim>\<open>str.splitlines(keepends=True)\<close>
  cuts after every line boundary (characters are code points below 256).
\<close>

fun translate_newlines :: "string \<Rightarrow> string" where
  "translate_newlines [] = []"
| "translate_newlines [x] = (if x = CR then [LF] else [x])"
| "translate_newlines (x # y # ys) =
     (if x = CR \<and> y = LF then LF # translate_newlines ys
      else if x = CR then LF # translate_newlines (y # ys)
      else x # translate_newlines (y # ys))"

fun cut_after :: "(char \<Rightarrow> bool) \<Rightarrow> string \<Rightarrow> string list" where
  "cut_after brk [] = []"
| "cut_after brk (x # xs) =
     (if brk x then [x] # cut_after brk xs
      else (case cut_after brk xs of
              [] \<Rightarrow> [[x]]
            | l # ls \<Rightarrow> (x # l) # ls))"

definition readlines :: "string \<Rightarrow> string list" where
  "readlines text = cut_after (\<lambda>c. c = LF) text"

definition splitlines_keepends :: "string \<Rightarrow> string list" where
  "splitlines_keepends text =
     cut_after (\<lambda>c. c \<in> set [LF, CHR 0x0B, CHR 0x0C, CHR 0x1C, CHR 0x1D, CHR 0x1E, CHR 0x85]) text"

definition open_read :: "string \<Rightarrow> string io" where
  "open_read p w =
     (case read_fs (files w) (path_components p) of
        Inl e \<Rightarrow> (Inl e, w)
      | Inr text \<Rightarrow> (Inr (translate_newlines text), emit (OpenedForReading p) w))"

definition open_write :: "string \<Rightarrow> string \<Rightarrow> unit io" where
  "open_write p text w =
     (case write_fs (files w) (path_components p) text of
        Inl e \<Rightarrow> (Inl e, w)
      | Inr fs \<Rightarrow> (Inr (), (emit (OpenedForWriting p) w)\<lparr>files := fs\<rparr>))"

section \<open>The environment: the shell, the analysis tool, klee-stats, difflib\<close>

text \<open>
  A child process is described by what the supervisor can observe of it: when it exits
  by itself (seconds after its start, with its exit code) if it ever does, how long it
  takes to be gone once killed if it ever is, and the file system it leaves after having
  run for a number of seconds.
\<close>

record proc =
  natural_exit :: "(nat \<times> int) option"
  kill_latency :: "nat option"
  files_after :: "nat \<Rightarrow> filesys"

text \<open>
  What the program does not define is a parameter: the process the shell makes of a
  command line, started in a working directory on a file system; the standard output of
  \<^verbatim>\<open>klee-stats\<close> on a directory; \<^verbatim>\<open>difflib.unified_diff\<close> (the two line lists, the two
  labels, the context size); and the listing \<^verbatim>\<open>os.scandir\<close> gives of a directory.
\<close>

record env =
  shell :: "string \<Rightarrow> string \<Rightarrow> filesys \<Rightarrow> proc"
  klee_stats :: "string \<Rightarrow> filesys \<Rightarrow> string"
  unified_diff :: "string list \<Rightarrow> string list \<Rightarrow> string \<Rightarrow> string \<Rightarrow> nat \<Rightarrow> string list"

definition Popen :: "env \<Rightarrow> string \<Rightarrow> string \<Rightarrow> proc io" where
  "Popen E command_line cwd w =
     (case stat (files w) (path_components cwd) of
        Inl e \<Rightarrow> (Inl e, w)
      | Inr (File _) \<Rightarrow> (Inl NotADirectoryError, w)
      | Inr Dir \<Rightarrow> (Inr (shell E command_line cwd (files w)), emit (Spawned command_line cwd) w))"

definition proc_wait_timeout :: "proc \<Rightarrow> int \<Rightarrow> int io" where
  "proc_wait_timeout p timeout w =
     (let expired = (Inl TimeoutExpired,
                     w\<lparr>clock := clock w + max 0 timeout, files := files_after p (nat timeout)\<rparr>)
      in case natural_exit p of
           None \<Rightarrow> expired
         | Some (d, returncode) \<Rightarrow>
             if int d \<le> timeout
             then (Inr returncode,
                   emit Exited (w\<lparr>clock := clock w + int d, files := files_after p d\<rparr>))
             else expired)"

definition proc_kill :: "proc \<Rightarrow> unit io" where
  "proc_kill p w = (Inr (), emit Killed w)"

definition proc_wait_killed :: "proc \<Rightarrow> int io" where
  "proc_wait_killed p w =
     (case kill_latency p of
        None \<Rightarrow> (Inl NeverReturns, w)
      | Some k \<Rightarrow> (Inr (- 9), emit Exited (w\<lparr>clock := clock w + int k\<rparr>)))"

section \<open>class KLEE\<close>

definition KLEE_PATH :: string where
  "KLEE_PATH = ''/home/columpio/klee''"

definition MAX_SOLVER_TIME :: string where
  "MAX_SOLVER_TIME = ''15s''"

definition MAX_TIME :: int where
  "MAX_TIME = 60"

definition WAIT_UNTIL_KILL_SCALE :: int where
  "WAIT_UNTIL_KILL_SCALE = 2"

definition SANDBOX :: string where
  "SANDBOX = ''/tmp/sandbox''"

definition BUILD_FOLDER :: string where
  "BUILD_FOLDER = ''build-mydev''"

definition BINARY_KLEE :: string where
  "BINARY_KLEE = os_path_join (os_path_join (os_path_join KLEE_PATH BUILD_FOLDER) ''bin'') ''klee''"

definition BINARY_KLEE_STATS :: string where
  "BINARY_KLEE_STATS =
     os_path_join (os_path_join (os_path_join KLEE_PATH BUILD_FOLDER) ''bin'') ''klee-stats''"

definition KLEE_STATS_DIFF :: string where
  "KLEE_STATS_DIFF = ''klee_stats_diff''"

record KLEE =
  flags :: "string list"
  name :: string

definition KLEE_init :: "string \<Rightarrow> string list option \<Rightarrow> KLEE" where
  "KLEE_init nm fl = \<lparr>flags = (case fl of None \<Rightarrow> [] | Some l \<Rightarrow> l), name = nm\<rparr>"

record DirEntry =
  entry_path :: string
  entry_name :: string

definition output_base_dir :: "string \<Rightarrow> string" where
  "output_base_dir benchmark_path = benchmark_path @ ''-klee-out''"

definition output_dir :: "KLEE \<Rightarrow> string \<Rightarrow> string" where
  "output_dir self base = os_path_join base (name self)"

definition sym_flags :: "KLEE \<Rightarrow> string \<Rightarrow> string list io" where
  "sym_flags self benchmark_name w =
     (let tool_name = fst (splitext benchmark_name);
          (profile, table) = defaultdict_getitem (SYM_ARGS w) tool_name
      in (Inr (argument_list profile), w\<lparr>SYM_ARGS := table\<rparr>))"

definition basic_flags :: "string \<Rightarrow> string \<Rightarrow> string list" where
  "basic_flags benchmarks_path out_dir =
     [BINARY_KLEE,
      ''--simplify-sym-indices'',
      ''--max-memory=1000'',
      ''--optimize'',
      ''--libc=uclibc'',
      ''--posix-runtime'',
      ''--external-calls=all'',
      ''--only-output-states-covering-new'',
      ''--env-file='' @ os_path_join benchmarks_path ''test.env'',
      ''--run-in-dir='' @ SANDBOX,
      ''--max-sym-array-size=4096'',
      ''--max-solver-time='' @ MAX_SOLVER_TIME,
      ''--max-time='' @ str_int MAX_TIME,
      ''--watchdog'',
      ''--max-static-fork-pct=1'',
      ''--max-static-solve-pct=1'',
      ''--max-static-cpfork-pct=1'',
      ''--switch-type=internal'',
      ''--output-dir='' @ out_dir]"

definition command :: "KLEE \<Rightarrow> DirEntry \<Rightarrow> string list io" where
  "command self benchmark_entry =
     (let base = output_base_dir (entry_path benchmark_entry);
          out_dir = output_dir self base
      in io_bind (os_makedirs out_dir True) (\<lambda>_.
         io_bind (shutil_rmtree out_dir False) (\<lambda>_.
         io_bind (shutil_rmtree SANDBOX True) (\<lambda>_.
         io_bind (os_makedirs SANDBOX False) (\<lambda>_.
         (\<lambda>w. io_bind (sym_flags self (entry_name benchmark_entry)) (\<lambda>sym.
            io_return (basic_flags (BENCHMARKS_PATH w) out_dir @ flags self
                       @ [entry_path benchmark_entry] @ sym)) w))))))"

definition run :: "env \<Rightarrow> KLEE \<Rightarrow> DirEntry \<Rightarrow> unit io" where
  "run E self benchmark_entry =
     io_bind (command self benchmark_entry) (\<lambda>tokens.
     let command_line = join '' '' tokens
     in io_bind (log (''Running '' @ command_line)) (\<lambda>_.
        io_bind (\<lambda>w. Popen E command_line (BENCHMARKS_PATH w) w) (\<lambda>p.
        (\<lambda>w. case proc_wait_timeout p (MAX_TIME * WAIT_UNTIL_KILL_SCALE) w of
                (Inr _, w') \<Rightarrow>
                  log (''Process finished under '' @ str_int WAIT_UNTIL_KILL_SCALE
                       @ '' * time limit'') w'
              | (Inl e, w') \<Rightarrow>
                  if e = TimeoutExpired
                  then io_bind (log (''Process not finished under ''
                                     @ str_int WAIT_UNTIL_KILL_SCALE
                                     @ '' * time limit, so killing it'')) (\<lambda>_.
                       io_bind (proc_kill p) (\<lambda>_.
                       io_bind (proc_wait_killed p) (\<lambda>_. io_return ()))) w'
                  else (Inl e, w')))))"

section \<open>The comparison strategies\<close>

definition DIFF_EXT :: string where
  "DIFF_EXT = ''.patch''"

datatype Differ = InfoFilesDiffer | KleeStatsDiffer

definition call_klee_stats_on :: "env \<Rightarrow> string \<Rightarrow> string list io" where
  "call_klee_stats_on E p w =
     (case read_fs (files w) (path_components BINARY_KLEE_STATS) of
        Inl e \<Rightarrow> (Inl e, w)
      | Inr _ \<Rightarrow>
          (Inr (splitlines_keepends (translate_newlines (klee_stats E p (files w)))),
           emit (RanKleeStats p) w))"

text \<open>
  \<^verbatim>\<open>read_originals\<close> returns the two line lists, the two labels and the artifact's path
  without its extension.
\<close>

definition read_originals ::
  "env \<Rightarrow> Differ \<Rightarrow> string \<Rightarrow> string \<Rightarrow> string
     \<Rightarrow> (string list \<times> string list \<times> string \<times> string \<times> string) io" where
  "read_originals E self base out1 out2 =
     (case self of
        InfoFilesDiffer \<Rightarrow>
          (let info_out = os_path_join base ''info'';
               info1 = os_path_join out1 ''info'';
               info2 = os_path_join out2 ''info''
           in io_bind (open_read info1) (\<lambda>text1.
              let info1_lines = readlines text1
              in io_bind (open_read info2) (\<lambda>text2.
                 let info2_lines = readlines text2
                 in io_return (info1_lines, info2_lines, info1, info2, info_out))))
      | KleeStatsDiffer \<Rightarrow>
          (let info_out = os_path_join base KLEE_STATS_DIFF
           in io_bind (call_klee_stats_on E out1) (\<lambda>info1_lines.
              io_bind (call_klee_stats_on E out2) (\<lambda>info2_lines.
              io_return (info1_lines, info2_lines,
                         ''klee-stats '' @ out1, ''klee-stats '' @ out2, info_out)))))"

definition save_diff :: "env \<Rightarrow> Differ \<Rightarrow> string \<Rightarrow> string \<Rightarrow> string \<Rightarrow> unit io" where
  "save_diff E self base out1 out2 =
     io_bind (read_originals E self base out1 out2)
       (\<lambda>(info1_lines, info2_lines, info1, info2, info_out).
          let diff = unified_diff E info1_lines info2_lines info1 info2 3
          in open_write (info_out @ DIFF_EXT) (concat diff))"

record ResultComparator =
  klee1 :: KLEE
  klee2 :: KLEE
  differ :: Differ

definition comparator_save_diff :: "env \<Rightarrow> ResultComparator \<Rightarrow> DirEntry \<Rightarrow> unit io" where
  "comparator_save_diff E self benchmark_entry =
     (let base = output_base_dir (entry_path benchmark_entry);
          out1 = output_dir (klee1 self) base;
          out2 = output_dir (klee2 self) base
      in save_diff E (differ self) base out1 out2)"

section \<open>The scheduler\<close>

text \<open>
  \<^verbatim>\<open>datetime.min\<close> is day 1 at 00:00:00 and \<^verbatim>\<open>datetime.max\<close> is within day 3652059;
  adding a \<^verbatim>\<open>timedelta\<close> that leaves this range raises \<^verbatim>\<open>OverflowError\<close>.
  \<^verbatim>\<open>%H\<close>, \<^verbatim>\<open>%M\<close> and \<^verbatim>\<open>%S\<close> print the time of day, each as two digits.
\<close>

definition two_digits :: "int \<Rightarrow> string" where
  "two_digits n = (if n < 10 then ''0'' @ str_int n else str_int n)"

definition human_readable_time :: "int \<Rightarrow> error + string" where
  "human_readable_time seconds =
     (let ordinal = 1 + seconds div 86400;
          second_of_day = seconds mod 86400
      in if 1 \<le> ordinal \<and> ordinal \<le> 3652059
         then Inr (two_digits (second_of_day div 3600) @ '' hours, ''
                   @ two_digits (second_of_day mod 3600 div 60) @ '' minutes, ''
                   @ two_digits (second_of_day mod 60) @ '' seconds'')
         else Inl OverflowError)"

definition NUMBER_OF_COMPARED_KLEES :: int where
  "NUMBER_OF_COMPARED_KLEES = 2"

definition estimated_time_left :: "int \<Rightarrow> int" where
  "estimated_time_left benchmarks_left = benchmarks_left * MAX_TIME * NUMBER_OF_COMPARED_KLEES"

definition max_time_left :: "int \<Rightarrow> int" where
  "max_time_left benchmarks_left = estimated_time_left benchmarks_left * WAIT_UNTIL_KILL_SCALE"

definition print_estimated_time_left :: "int \<Rightarrow> unit io" where
  "print_estimated_time_left benchmarks_left w =
     (case human_readable_time (estimated_time_left benchmarks_left) of
        Inl e \<Rightarrow> (Inl e, w)
      | Inr estimated \<Rightarrow>
          (case human_readable_time (max_time_left benchmarks_left) of
             Inl e \<Rightarrow> (Inl e, w)
           | Inr maximal \<Rightarrow>
               (Inr (), emit (Printed (''ESTIMATED TIME LEFT: '' @ estimated
                                        @ '' (no more than '' @ maximal @ '')'')) w)))"

definition has_both_solutions :: "DirEntry \<Rightarrow> world \<Rightarrow> bool" where
  "has_both_solutions benchmark w =
     os_path_exists (os_path_join (output_base_dir (entry_path benchmark))
                       (KLEE_STATS_DIFF @ DIFF_EXT)) w"

text \<open>
  The body of the loop of \<^verbatim>\<open>main\<close> on one benchmark that is not skipped, then the loop
  itself over \<^verbatim>\<open>enumerate(benchmarks)\<close> from index \<open>i\<close>.
\<close>

definition process_benchmark ::
  "env \<Rightarrow> KLEE \<Rightarrow> KLEE \<Rightarrow> ResultComparator \<Rightarrow> int \<Rightarrow> DirEntry \<Rightarrow> unit io" where
  "process_benchmark E bd_klee my_klee result_comparator benchmarks_left benchmark =
     io_bind (print_estimated_time_left benchmarks_left) (\<lambda>_.
     io_bind (run E bd_klee benchmark) (\<lambda>_.
     io_bind (run E my_klee benchmark) (\<lambda>_.
     comparator_save_diff E result_comparator benchmark)))"

fun scheduler_loop ::
  "env \<Rightarrow> KLEE \<Rightarrow> KLEE \<Rightarrow> ResultComparator \<Rightarrow> int \<Rightarrow> int \<Rightarrow> DirEntry list \<Rightarrow> unit io" where
  "scheduler_loop E bd_klee my_klee result_comparator benchmarks_len i [] w = (Inr (), w)"
| "scheduler_loop E bd_klee my_klee result_comparator benchmarks_len i (benchmark # rest) w =
     (if has_both_solutions benchmark w
      then scheduler_loop E bd_klee my_klee result_comparator benchmarks_len (i + 1) rest w
      else (case process_benchmark E bd_klee my_klee result_comparator
                   (benchmarks_len - i) benchmark w of
              (Inl e, w') \<Rightarrow> (Inl e, w')
            | (Inr _, w') \<Rightarrow>
                scheduler_loop E bd_klee my_klee result_comparator benchmarks_len (i + 1) rest w'))"

definition main :: "env \<Rightarrow> (string \<Rightarrow> filesys \<Rightarrow> DirEntry list) \<Rightarrow> unit io" where
  "main E os_scandir w0 =
     (let w1 = w0\<lparr>BENCHMARKS_PATH := ''/home/columpio/coreutils/obj-llvm/src''\<rparr>
      in case open_write (os_path_join (BENCHMARKS_PATH w1) ''run-exps.log'') [] w1 of
           (Inl e, w2) \<Rightarrow> (Inl e, w2)
         | (Inr _, w2) \<Rightarrow>
             (let benchmarks = filter (\<lambda>entry. \<not> startswith (entry_name entry) ''.''
                                               \<and> endswith (entry_name entry) ''.bc'')
                                 (os_scandir (BENCHMARKS_PATH w2) (files w2));
                  bd_klee = KLEE_init ''No___Blacklist'' (Some [''--disable-blacklist'']);
                  my_klee = KLEE_init ''With_Blacklist'' None;
                  result_comparator = \<lparr>klee1 = bd_klee, klee2 = my_klee, differ = KleeStatsDiffer\<rparr>
              in scheduler_loop E bd_klee my_klee result_comparator
                   (int (length benchmarks)) 0 benchmarks w2))"

section \<open>A small experiment\<close>

text \<open>
  One benchmark \<^verbatim>\<open>/tmp/foo.bc\<close>, with no profile of its own, two configurations \<^verbatim>\<open>A\<close>
  (no extra flag) and \<^verbatim>\<open>B\<close> (one extra flag), and the state of the program when it starts
  on a disk that holds \<^verbatim>\<open>/tmp\<close> and the benchmark.
\<close>

definition klee_A :: KLEE where
  "klee_A = KLEE_init ''A'' None"

definition klee_B :: KLEE where
  "klee_B = KLEE_init ''B'' (Some [''--x''])"

definition foo_bc :: DirEntry where
  "foo_bc = \<lparr>entry_path = ''/tmp/foo.bc'', entry_name = ''foo.bc''\<rparr>"

definition disk0 :: filesys where
  "disk0 = [[''tmp''] \<mapsto> Dir, [''tmp'', ''foo.bc''] \<mapsto> File ''BC'']"

definition start_world :: "filesys \<Rightarrow> world" where
  "start_world fs =
     \<lparr>files = fs, SYM_ARGS = SYM_ARGS_initial, BENCHMARKS_PATH = ''/tmp'', clock = 0, trace = []\<rparr>"

text \<open>
  Two stand-ins for the analysis tool. Both find their output directory in the command
  line, create it and write three lines to its \<^verbatim>\<open>info\<close> file; the quick one then exits
  after one second with a non-zero code, the stuck one never exits and is gone three
  seconds after it is killed.
\<close>

definition output_dir_flag :: "string \<Rightarrow> string" where
  "output_dir_flag command_line =
     (case filter (\<lambda>t. startswith t ''--output-dir='') (split_on CHR '' '' command_line) of
        [] \<Rightarrow> []
      | t # _ \<Rightarrow> drop 13 t)"

definition tool_output :: "string \<Rightarrow> filesys \<Rightarrow> filesys" where
  "tool_output command_line fs =
     (let out = path_components (output_dir_flag command_line)
      in case makedirs_fs fs out False of
           Inl _ \<Rightarrow> fs
         | Inr fs1 \<Rightarrow>
             (case write_fs fs1 (out @ [''info''])
                     ([CHR ''a'', LF] @ last out @ [LF, CHR ''c'', LF]) of
                Inl _ \<Rightarrow> fs1
              | Inr fs2 \<Rightarrow> fs2))"

definition quick_tool :: "string \<Rightarrow> string \<Rightarrow> filesys \<Rightarrow> proc" where
  "quick_tool command_line cwd fs =
     \<lparr>natural_exit = Some (1, 3), kill_latency = Some 0,
      files_after = (\<lambda>t. if t = 0 then fs else tool_output command_line fs)\<rparr>"

definition stuck_tool :: "string \<Rightarrow> string \<Rightarrow> filesys \<Rightarrow> proc" where
  "stuck_tool command_line cwd fs =
     \<lparr>natural_exit = None, kill_latency = Some 3,
      files_after = (\<lambda>t. if t = 0 then fs else tool_output command_line fs)\<rparr>"

text \<open>
  A stand-in for \<^verbatim>\<open>difflib.unified_diff\<close> that is right on two line lists of one length,
  at most the context size apart from their one differing line: the two file headers,
  one hunk header, and the lines with their markers.
\<close>

definition marked_lines :: "string list \<Rightarrow> string list \<Rightarrow> string list" where
  "marked_lines a b =
     concat (map (\<lambda>(x, y). if x = y then [CHR '' '' # x] else [CHR ''-'' # x, CHR ''+'' # y])
               (zip a b))"

definition small_diff ::
  "string list \<Rightarrow> string list \<Rightarrow> string \<Rightarrow> string \<Rightarrow> nat \<Rightarrow> string list" where
  "small_diff a b fromfile tofile n =
     (if a = b then []
      else [''--- '' @ fromfile @ [LF], ''+++ '' @ tofile @ [LF],
            ''@@ -1,'' @ str_nat (length a) @ '' +1,'' @ str_nat (length b) @ '' @@'' @ [LF]]
           @ marked_lines a b)"

definition quick_env :: env where
  "quick_env = \<lparr>shell = quick_tool, klee_stats = (\<lambda>p fs. []), unified_diff = small_diff\<rparr>"

definition stuck_env :: env where
  "stuck_env = \<lparr>shell = stuck_tool, klee_stats = (\<lambda>p fs. []), unified_diff = small_diff\<rparr>"

definition spawns :: "world \<Rightarrow> nat" where
  "spawns w = length (filter (\<lambda>(t, e). case e of Spawned _ _ \<Rightarrow> True | _ \<Rightarrow> False) (trace w))"

text \<open>
  The profile tables the program can reach: the table as written in the source, with
  further keys bound to the default profile.
\<close>

definition profile_table_ok :: "(string \<rightharpoonup> SymArgs) \<Rightarrow> bool" where
  "profile_table_ok d =
     (\<forall>k. d k = SYM_ARGS_initial k \<or> (SYM_ARGS_initial k = None \<and> d k = Some SYM_ARGS_default))"



text \<open>
  A process outlives the wait window when it never exits by itself or exits only after
  the soft limit times the escalation factor.
\<close>

definition outlives_window :: "proc \<Rightarrow> bool" where
  "outlives_window p =
     (case natural_exit p of
        None \<Rightarrow> True
      | Some (d, returncode) \<Rightarrow> MAX_TIME * WAIT_UNTIL_KILL_SCALE < int d)"


text \<open>
  The disk after both configurations have run on the benchmark: two \<^verbatim>\<open>info\<close> files of
  three lines that differ in their second line.
\<close>

definition disk_done :: filesys where
  "disk_done = disk0([''tmp'', ''foo.bc-klee-out''] \<mapsto> Dir,
                     [''tmp'', ''foo.bc-klee-out'', ''A''] \<mapsto> Dir,
                     [''tmp'', ''foo.bc-klee-out'', ''A'', ''info''] \<mapsto>
                        File [CHR ''a'', LF, CHR ''A'', LF, CHR ''c'', LF],
                     [''tmp'', ''foo.bc-klee-out'', ''B''] \<mapsto> Dir,
                     [''tmp'', ''foo.bc-klee-out'', ''B'', ''info''] \<mapsto>
                        File [CHR ''a'', LF, CHR ''B'', LF, CHR ''c'', LF])"

text \<open>
  The two comparators of the small experiment, a first and a second pass of the scheduler
  with the raw-text one, and a disk on which \<^verbatim>\<open>klee-stats\<close> is installed.
\<close>

definition raw_text_comparator :: ResultComparator where
  "raw_text_comparator = \<lparr>klee1 = klee_A, klee2 = klee_B, differ = InfoFilesDiffer\<rparr>"

definition statistics_comparator :: ResultComparator where
  "statistics_comparator = \<lparr>klee1 = klee_A, klee2 = klee_B, differ = KleeStatsDiffer\<rparr>"

definition first_pass :: "(error + unit) \<times> world" where
  "first_pass = scheduler_loop quick_env klee_A klee_B raw_text_comparator 1 0 [foo_bc]
                  (start_world disk0)"

definition second_pass :: "(error + unit) \<times> world" where
  "second_pass = scheduler_loop quick_env klee_A klee_B raw_text_comparator 1 0 [foo_bc]
                   (snd first_pass)"

definition disk_tools :: filesys where
  "disk_tools = disk0([''home'', ''columpio'', ''klee'', ''build-mydev'', ''bin'', ''klee-stats'']
                        \<mapsto> File ''ELF'')"

section \<open>Building the invocation\<close>

lemma argument_list_last:
  "argument_list p \<noteq> [] \<and> last (argument_list p) = ''--sym-stdout''"
  by (simp add: argument_list_def Let_def split: option.splits prod.splits)

lemma sym_flags_unfold:
  "sym_flags self n w =
     (Inr (argument_list (fst (defaultdict_getitem (SYM_ARGS w) (fst (splitext n))))),
      w\<lparr>SYM_ARGS := snd (defaultdict_getitem (SYM_ARGS w) (fst (splitext n)))\<rparr>)"
  by (simp add: sym_flags_def Let_def split: prod.splits)

lemma sandbox_last_component: "last_component SANDBOX \<noteq> ''.''"
  by (simp add: last_component_def SANDBOX_def)

lemma command_unfold:
  "command self b w =
    (let out = path_components (output_dir self (output_base_dir (entry_path b)));
         sb = path_components SANDBOX
     in case makedirs_fs (files w) out True of
          Inl e \<Rightarrow> (Inl e, w)
        | Inr fs1 \<Rightarrow>
           (case rmtree_fs fs1 out of
              Inl e \<Rightarrow> (Inl e, w\<lparr>files := fs1\<rparr>)
            | Inr fs2 \<Rightarrow>
               if last_component (output_dir self (output_base_dir (entry_path b))) = ''.''
               then (Inl OSError, w\<lparr>files := fs2(out \<mapsto> Dir)\<rparr>)
               else
               (let fs3 = (case rmtree_fs fs2 sb of Inl _ \<Rightarrow> fs2 | Inr f \<Rightarrow> f)
                in case makedirs_fs fs3 sb False of
                     Inl e \<Rightarrow> (Inl e, w\<lparr>files := fs3\<rparr>)
                   | Inr fs4 \<Rightarrow>
                      (Inr (basic_flags (BENCHMARKS_PATH w)
                              (output_dir self (output_base_dir (entry_path b)))
                            @ flags self @ [entry_path b]
                            @ argument_list (fst (defaultdict_getitem (SYM_ARGS w)
                                                    (fst (splitext (entry_name b)))))),
                       w\<lparr>files := fs4,
                         SYM_ARGS := snd (defaultdict_getitem (SYM_ARGS w)
                                            (fst (splitext (entry_name b))))\<rparr>))))"
  by (simp add: command_def Let_def io_bind_def io_return_def os_makedirs_def
      shutil_rmtree_def sym_flags_unfold sandbox_last_component split: sum.splits)

lemma command_tokens:
  assumes "command self b w = (Inr tokens, w')"
  shows "tokens = basic_flags (BENCHMARKS_PATH w) (output_dir self (output_base_dir (entry_path b)))
                  @ flags self @ [entry_path b]
                  @ argument_list (fst (defaultdict_getitem (SYM_ARGS w)
                                          (fst (splitext (entry_name b)))))"
  using assms by (simp add: command_unfold Let_def split: sum.splits if_splits)

lemma default_tokens:
  "argument_list SYM_ARGS_default =
     [''--sym-args 0 1 10'', ''--sym-args 0 2 2'', ''--sym-files 1 8'', ''--sym-stdin 8'',
      ''--sym-stdout'']"
  by (simp add: argument_list_def SYM_ARGS_default_def mkSymArgs_def str_int_def str_nat.simps)

lemma getitem_fallback:
  assumes "profile_table_ok d" and "SYM_ARGS_initial k = None"
  shows "fst (defaultdict_getitem d k) = SYM_ARGS_default"
proof -
  from assms have "d k = None \<or> d k = Some SYM_ARGS_default"
    unfolding profile_table_ok_def by metis
  then show ?thesis by (auto simp: defaultdict_getitem_def)
qed

lemma getitem_keeps_ok:
  assumes "profile_table_ok d"
  shows "profile_table_ok (snd (defaultdict_getitem d k))"
proof (cases "d k")
  case None
  with assms have "SYM_ARGS_initial k = None" unfolding profile_table_ok_def by (metis option.distinct(1))
  with assms None show ?thesis
    unfolding profile_table_ok_def defaultdict_getitem_def by auto
next
  case (Some v)
  with assms show ?thesis by (simp add: defaultdict_getitem_def)
qed

lemma initial_table_ok: "profile_table_ok SYM_ARGS_initial"
  by (simp add: profile_table_ok_def)

lemma foo_has_no_profile: "SYM_ARGS_initial (fst (splitext ''foo.bc'')) = None"
  by (simp add: splitext_def rfind_def Let_def SYM_ARGS_initial_def)

text \<open>
  Claim C5. For a benchmark whose identifier (its name without the extension) has no entry
  of its own in the profile table of the source, in every table the program can reach,
  the lookup returns a value (it never fails) and the symbolic-parameter tokens are
  exactly the tokens of the default profile; so are the last tokens of the command built
  for the benchmark.
\<close>

theorem C5_default_profile_fallback:
  assumes "profile_table_ok (SYM_ARGS w)"
    and "SYM_ARGS_initial (fst (splitext (entry_name b))) = None"
  shows "fst (sym_flags self (entry_name b) w) = Inr (argument_list SYM_ARGS_default)
       \<and> argument_list SYM_ARGS_default =
           [''--sym-args 0 1 10'', ''--sym-args 0 2 2'', ''--sym-files 1 8'',
            ''--sym-stdin 8'', ''--sym-stdout'']
       \<and> profile_table_ok (SYM_ARGS (snd (sym_flags self (entry_name b) w)))
       \<and> (\<forall>tokens w'. command self b w = (Inr tokens, w') \<longrightarrow>
             tokens = basic_flags (BENCHMARKS_PATH w)
                        (output_dir self (output_base_dir (entry_path b)))
                      @ flags self @ [entry_path b] @ argument_list SYM_ARGS_default)"
proof (intro conjI allI impI)
  show "fst (sym_flags self (entry_name b) w) = Inr (argument_list SYM_ARGS_default)"
    using assms by (simp add: sym_flags_unfold getitem_fallback)
  show "argument_list SYM_ARGS_default =
           [''--sym-args 0 1 10'', ''--sym-args 0 2 2'', ''--sym-files 1 8'',
            ''--sym-stdin 8'', ''--sym-stdout'']"
    by (rule default_tokens)
  show "profile_table_ok (SYM_ARGS (snd (sym_flags self (entry_name b) w)))"
    using assms(1) by (simp add: sym_flags_unfold getitem_keeps_ok)
next
  fix tokens w'
  assume "command self b w = (Inr tokens, w')"
  from command_tokens [OF this] show
    "tokens = basic_flags (BENCHMARKS_PATH w)
                        (output_dir self (output_base_dir (entry_path b)))
                      @ flags self @ [entry_path b] @ argument_list SYM_ARGS_default"
    using assms by (simp add: getitem_fallback)
qed

theorem C5_witness:
  "profile_table_ok (SYM_ARGS (start_world disk0))
   \<and> SYM_ARGS_initial (fst (splitext (entry_name foo_bc))) = None
   \<and> fst (sym_flags klee_A (entry_name foo_bc) (start_world disk0)) =
       Inr [''--sym-args 0 1 10'', ''--sym-args 0 2 2'', ''--sym-files 1 8'',
            ''--sym-stdin 8'', ''--sym-stdout'']"
proof -
  have ok: "profile_table_ok (SYM_ARGS (start_world disk0))"
    by (simp add: start_world_def initial_table_ok)
  have absent: "SYM_ARGS_initial (fst (splitext (entry_name foo_bc))) = None"
    by (simp add: foo_bc_def foo_has_no_profile)
  from C5_default_profile_fallback [OF ok absent, of klee_A] ok absent
  show ?thesis by simp
qed

text \<open>
  Claim C6. Whenever building the invocation returns, the token list is the baseline flags
  (whose last one is the output-directory flag), then the configuration's extra flags,
  then the benchmark path, then the symbolic-parameter tokens of the benchmark's profile,
  in this order; and the symbolic-parameter tokens, hence the whole list, end with the
  symbolic-standard-output flag.
\<close>

theorem C6_command_tokens:
  assumes "command self b w = (Inr tokens, w')"
  shows "tokens = basic_flags (BENCHMARKS_PATH w)
                    (output_dir self (output_base_dir (entry_path b)))
                  @ flags self @ [entry_path b]
                  @ argument_list (fst (defaultdict_getitem (SYM_ARGS w)
                                          (fst (splitext (entry_name b)))))
       \<and> fst (sym_flags self (entry_name b) w) =
           Inr (argument_list (fst (defaultdict_getitem (SYM_ARGS w)
                                      (fst (splitext (entry_name b))))))
       \<and> last (basic_flags (BENCHMARKS_PATH w)
                 (output_dir self (output_base_dir (entry_path b)))) =
           ''--output-dir='' @ output_dir self (output_base_dir (entry_path b))
       \<and> last (argument_list (fst (defaultdict_getitem (SYM_ARGS w)
                                      (fst (splitext (entry_name b)))))) = ''--sym-stdout''
       \<and> last tokens = ''--sym-stdout''"
proof -
  let ?sym = "argument_list (fst (defaultdict_getitem (SYM_ARGS w)
                (fst (splitext (entry_name b)))))"
  have toks: "tokens = basic_flags (BENCHMARKS_PATH w)
                    (output_dir self (output_base_dir (entry_path b)))
                  @ flags self @ [entry_path b] @ ?sym"
    by (rule command_tokens [OF assms])
  have sym: "?sym \<noteq> []" "last ?sym = ''--sym-stdout''"
    using argument_list_last by blast+
  have "last tokens = last ?sym"
    unfolding toks using sym(1) by simp
  with toks sym show ?thesis
    by (simp add: sym_flags_unfold basic_flags_def)
qed

lemma command_A_tokens:
  "fst (command klee_A foo_bc (start_world disk0)) =
     Inr [''/home/columpio/klee/build-mydev/bin/klee'',
      ''--simplify-sym-indices'', ''--max-memory=1000'', ''--optimize'',
      ''--libc=uclibc'', ''--posix-runtime'', ''--external-calls=all'',
      ''--only-output-states-covering-new'', ''--env-file=/tmp/test.env'',
      ''--run-in-dir=/tmp/sandbox'', ''--max-sym-array-size=4096'',
      ''--max-solver-time=15s'', ''--max-time=60'', ''--watchdog'',
      ''--max-static-fork-pct=1'', ''--max-static-solve-pct=1'',
      ''--max-static-cpfork-pct=1'', ''--switch-type=internal'',
      ''--output-dir=/tmp/foo.bc-klee-out/A'', ''/tmp/foo.bc'',
      ''--sym-args 0 1 10'', ''--sym-args 0 2 2'', ''--sym-files 1 8'',
      ''--sym-stdin 8'', ''--sym-stdout'']"
  by code_simp

theorem C6_witness:
  "fst (command klee_A foo_bc (start_world disk0)) =
     Inr [''/home/columpio/klee/build-mydev/bin/klee'',
      ''--simplify-sym-indices'', ''--max-memory=1000'', ''--optimize'',
      ''--libc=uclibc'', ''--posix-runtime'', ''--external-calls=all'',
      ''--only-output-states-covering-new'', ''--env-file=/tmp/test.env'',
      ''--run-in-dir=/tmp/sandbox'', ''--max-sym-array-size=4096'',
      ''--max-solver-time=15s'', ''--max-time=60'', ''--watchdog'',
      ''--max-static-fork-pct=1'', ''--max-static-solve-pct=1'',
      ''--max-static-cpfork-pct=1'', ''--switch-type=internal'',
      ''--output-dir=/tmp/foo.bc-klee-out/A'', ''/tmp/foo.bc'',
      ''--sym-args 0 1 10'', ''--sym-args 0 2 2'', ''--sym-files 1 8'',
      ''--sym-stdin 8'', ''--sym-stdout'']
   \<and> last (projr (fst (command klee_A foo_bc (start_world disk0)))) = ''--sym-stdout''"
proof -
  let ?r = "command klee_A foo_bc (start_world disk0)"
  have run: "?r = (Inr (projr (fst ?r)), snd ?r)"
    by (simp add: command_A_tokens prod_eq_iff)
  from C6_command_tokens [OF run]
  have "last (projr (fst ?r)) = ''--sym-stdout''" by blast
  then show ?thesis using command_A_tokens by blast
qed

lemma foo_identifier: "fst (splitext ''foo.bc'') = ''foo''"
  by (simp add: splitext_def rfind_def Let_def)

text \<open>
  Claim C7 says that a lookup leaves the profile table unchanged. It does not for an
  identifier that is absent: after the lookup for \<^verbatim>\<open>foo.bc\<close> the table differs from the
  table the program started with.
\<close>

theorem C7_counterexample:
  "SYM_ARGS (snd (sym_flags klee_A (entry_name foo_bc) (start_world disk0)))
     \<noteq> SYM_ARGS (start_world disk0)"
proof
  assume eq: "SYM_ARGS (snd (sym_flags klee_A (entry_name foo_bc) (start_world disk0)))
     = SYM_ARGS (start_world disk0)"
  have absent: "SYM_ARGS (start_world disk0) ''foo'' = None"
    using foo_has_no_profile by (simp add: start_world_def foo_identifier)
  then have "SYM_ARGS (snd (sym_flags klee_A (entry_name foo_bc) (start_world disk0))) ''foo''
          = Some SYM_ARGS_default"
    by (simp add: sym_flags_unfold foo_bc_def defaultdict_getitem_def foo_identifier)
  with absent eq show False by simp
qed

text \<open>
  Claim C7, amended. A lookup for an identifier that has an entry leaves the table
  unchanged; a lookup for an identifier that has none stores the default profile under
  that identifier and changes no other entry. Either way the profile every identifier
  resolves to is the same before and after, and nothing else of the state changes.
\<close>

theorem C7_lookup_effect:
  "SYM_ARGS (snd (sym_flags self n w)) =
     (case SYM_ARGS w (fst (splitext n)) of
        Some v \<Rightarrow> SYM_ARGS w
      | None \<Rightarrow> (SYM_ARGS w)(fst (splitext n) \<mapsto> SYM_ARGS_default))
   \<and> fst (defaultdict_getitem (SYM_ARGS (snd (sym_flags self n w))) k) =
       fst (defaultdict_getitem (SYM_ARGS w) k)
   \<and> files (snd (sym_flags self n w)) = files w
   \<and> BENCHMARKS_PATH (snd (sym_flags self n w)) = BENCHMARKS_PATH w
   \<and> clock (snd (sym_flags self n w)) = clock w
   \<and> trace (snd (sym_flags self n w)) = trace w"
  by (simp add: sym_flags_unfold defaultdict_getitem_def split: option.splits)

section \<open>The remaining-time report\<close>









section \<open>Directories before a run\<close>



lemma stat_Inl_cases: "stat fs cs = Inl e \<Longrightarrow> e = FileNotFoundError \<or> e = NotADirectoryError"
  by (auto simp: stat_def split: if_splits option.splits)





lemma rmtree_fs_Inl:
  assumes "rmtree_fs fs cs = Inl e"
  shows "stat fs cs \<noteq> Inr Dir"
  using assms by (auto simp: rmtree_fs_def split: sum.splits node.splits)






lemma command_Inr:
  assumes "command self b w = (Inr tokens, w')"
  obtains fs1 fs2 fs3 fs4 where
    "makedirs_fs (files w) (path_components (output_dir self (output_base_dir (entry_path b)))) True
       = Inr fs1"
    "rmtree_fs fs1 (path_components (output_dir self (output_base_dir (entry_path b)))) = Inr fs2"
    "fs3 = (case rmtree_fs fs2 (path_components SANDBOX) of Inl _ \<Rightarrow> fs2 | Inr f \<Rightarrow> f)"
    "makedirs_fs fs3 (path_components SANDBOX) False = Inr fs4"
    "w' = w\<lparr>files := fs4,
            SYM_ARGS := snd (defaultdict_getitem (SYM_ARGS w) (fst (splitext (entry_name b))))\<rparr>"
  using assms by (auto simp: command_unfold Let_def split: sum.splits if_splits)









text \<open>
  A configuration named \<^verbatim>\<open>.\<close> cannot be run: removing its output directory fails.
\<close>

lemma command_dot_configuration:
  "fst (command (KLEE_init ''.'' None) foo_bc (start_world disk0)) = Inl OSError"
  by code_simp



section \<open>Supervising a run\<close>

lemma command_keeps:
  assumes "command self b w = (Inr tokens, w1)"
  shows "clock w1 = clock w" and "trace w1 = trace w" and "BENCHMARKS_PATH w1 = BENCHMARKS_PATH w"
  using assms by (auto elim!: command_Inr)

lemma scale_text: "str_int WAIT_UNTIL_KILL_SCALE = ''2''"
  by (simp add: WAIT_UNTIL_KILL_SCALE_def str_int_def str_nat.simps)

lemma window_nonneg: "max 0 (MAX_TIME * WAIT_UNTIL_KILL_SCALE) = MAX_TIME * WAIT_UNTIL_KILL_SCALE"
  by (simp add: MAX_TIME_def WAIT_UNTIL_KILL_SCALE_def)

lemma run_command_fails:
  assumes "command self b w = (Inl e, w1)"
  shows "run E self b w = (Inl e, w1)"
  using assms by (simp add: run_def io_bind_def)

lemma run_within_window:
  assumes cmd: "command self b w = (Inr tokens, w1)"
    and cwd: "stat (files w1) (path_components (BENCHMARKS_PATH w1)) = Inr Dir"
    and ex: "natural_exit (shell E (join '' '' tokens) (BENCHMARKS_PATH w1) (files w1))
               = Some (d, returncode)"
    and d: "int d \<le> MAX_TIME * WAIT_UNTIL_KILL_SCALE"
  shows "run E self b w =
     (Inr (),
      w1\<lparr>clock := clock w + int d,
         files := files_after (shell E (join '' '' tokens) (BENCHMARKS_PATH w1) (files w1)) d,
         trace := trace w @
           [(clock w, Printed (''Running '' @ join '' '' tokens)),
            (clock w, Spawned (join '' '' tokens) (BENCHMARKS_PATH w1)),
            (clock w + int d, Exited),
            (clock w + int d, Printed ''Process finished under 2 * time limit'')]\<rparr>)"
  using cmd cwd ex d command_keeps [OF cmd]
  by (simp add: run_def io_bind_def Let_def log_def emit_def Popen_def proc_wait_timeout_def
      scale_text)

lemma run_killed:
  assumes cmd: "command self b w = (Inr tokens, w1)"
    and cwd: "stat (files w1) (path_components (BENCHMARKS_PATH w1)) = Inr Dir"
    and out: "outlives_window (shell E (join '' '' tokens) (BENCHMARKS_PATH w1) (files w1))"
    and k: "kill_latency (shell E (join '' '' tokens) (BENCHMARKS_PATH w1) (files w1)) = Some k"
  shows "run E self b w =
     (Inr (),
      w1\<lparr>clock := clock w + MAX_TIME * WAIT_UNTIL_KILL_SCALE + int k,
         files := files_after (shell E (join '' '' tokens) (BENCHMARKS_PATH w1) (files w1))
                    (nat (MAX_TIME * WAIT_UNTIL_KILL_SCALE)),
         trace := trace w @
           [(clock w, Printed (''Running '' @ join '' '' tokens)),
            (clock w, Spawned (join '' '' tokens) (BENCHMARKS_PATH w1)),
            (clock w + MAX_TIME * WAIT_UNTIL_KILL_SCALE,
             Printed ''Process not finished under 2 * time limit, so killing it''),
            (clock w + MAX_TIME * WAIT_UNTIL_KILL_SCALE, Killed),
            (clock w + MAX_TIME * WAIT_UNTIL_KILL_SCALE + int k, Exited)]\<rparr>)"
  using cmd cwd out k command_keeps [OF cmd]
  by (auto simp: run_def io_bind_def io_return_def Let_def log_def emit_def Popen_def
      proc_wait_timeout_def proc_kill_def proc_wait_killed_def scale_text window_nonneg
      outlives_window_def split: option.splits)

lemma run_blocked:
  assumes cmd: "command self b w = (Inr tokens, w1)"
    and cwd: "stat (files w1) (path_components (BENCHMARKS_PATH w1)) = Inr Dir"
    and out: "outlives_window (shell E (join '' '' tokens) (BENCHMARKS_PATH w1) (files w1))"
    and k: "kill_latency (shell E (join '' '' tokens) (BENCHMARKS_PATH w1) (files w1)) = None"
  shows "run E self b w =
     (Inl NeverReturns,
      w1\<lparr>clock := clock w + MAX_TIME * WAIT_UNTIL_KILL_SCALE,
         files := files_after (shell E (join '' '' tokens) (BENCHMARKS_PATH w1) (files w1))
                    (nat (MAX_TIME * WAIT_UNTIL_KILL_SCALE)),
         trace := trace w @
           [(clock w, Printed (''Running '' @ join '' '' tokens)),
            (clock w, Spawned (join '' '' tokens) (BENCHMARKS_PATH w1)),
            (clock w + MAX_TIME * WAIT_UNTIL_KILL_SCALE,
             Printed ''Process not finished under 2 * time limit, so killing it''),
            (clock w + MAX_TIME * WAIT_UNTIL_KILL_SCALE, Killed)]\<rparr>)"
  using cmd cwd out k command_keeps [OF cmd]
  by (auto simp: run_def io_bind_def io_return_def Let_def log_def emit_def Popen_def
      proc_wait_timeout_def proc_kill_def proc_wait_killed_def scale_text window_nonneg
      outlives_window_def split: option.splits)



text \<open>
  Claim C3. Time is the logical clock of the state, in seconds; building the invocation
  takes none. When the invocation is built, the child is started and never exits by
  itself, the supervisor's trace is: the command logged and the child spawned at the
  start, the kill announced and issued exactly the soft limit times the escalation factor
  (2) later, which is no earlier than the soft limit and no later than that product. It
  then waits for the killed child: when the child is gone after \<open>k\<close> seconds the
  supervisor has seen it exit and returns normally at that time; a child that is never
  gone keeps the supervisor waiting for ever.
\<close>

theorem C3_timeout_escalation:
  assumes "command self b w = (Inr tokens, w1)"
    and "stat (files w1) (path_components (BENCHMARKS_PATH w1)) = Inr Dir"
    and "natural_exit (shell E (join '' '' tokens) (BENCHMARKS_PATH w1) (files w1)) = None"
  shows "trace (snd (run E self b w)) =
           trace w @
           [(clock w, Printed (''Running '' @ join '' '' tokens)),
            (clock w, Spawned (join '' '' tokens) (BENCHMARKS_PATH w1)),
            (clock w + MAX_TIME * WAIT_UNTIL_KILL_SCALE,
             Printed ''Process not finished under 2 * time limit, so killing it''),
            (clock w + MAX_TIME * WAIT_UNTIL_KILL_SCALE, Killed)]
           @ (case kill_latency (shell E (join '' '' tokens) (BENCHMARKS_PATH w1) (files w1)) of
                None \<Rightarrow> []
              | Some k \<Rightarrow> [(clock w + MAX_TIME * WAIT_UNTIL_KILL_SCALE + int k, Exited)])
       \<and> clock w + MAX_TIME \<le> clock w + MAX_TIME * WAIT_UNTIL_KILL_SCALE
       \<and> WAIT_UNTIL_KILL_SCALE = 2
       \<and> (\<forall>k. kill_latency (shell E (join '' '' tokens) (BENCHMARKS_PATH w1) (files w1)) = Some k
              \<longrightarrow> fst (run E self b w) = Inr ()
                  \<and> clock (snd (run E self b w)) =
                      clock w + MAX_TIME * WAIT_UNTIL_KILL_SCALE + int k)
       \<and> (kill_latency (shell E (join '' '' tokens) (BENCHMARKS_PATH w1) (files w1)) = None
              \<longrightarrow> fst (run E self b w) = Inl NeverReturns)"
proof -
  let ?p = "shell E (join '' '' tokens) (BENCHMARKS_PATH w1) (files w1)"
  have out: "outlives_window ?p" using assms(3) by (simp add: outlives_window_def)
  have bound: "clock w + MAX_TIME \<le> clock w + MAX_TIME * WAIT_UNTIL_KILL_SCALE"
    and scale: "WAIT_UNTIL_KILL_SCALE = 2"
    by (simp_all add: MAX_TIME_def WAIT_UNTIL_KILL_SCALE_def)
  show ?thesis
  proof (cases "kill_latency ?p")
    case None
    from run_blocked [OF assms(1,2) out None] None bound scale show ?thesis by simp
  next
    case (Some k)
    from run_killed [OF assms(1,2) out Some] Some bound scale show ?thesis by simp
  qed
qed

lemma command_A_start:
  "command klee_A foo_bc (start_world disk0) =
     (Inr (projr (fst (command klee_A foo_bc (start_world disk0)))),
      snd (command klee_A foo_bc (start_world disk0)))"
  by (simp add: command_A_tokens prod_eq_iff)

lemma cwd_A_start:
  "stat (files (snd (command klee_A foo_bc (start_world disk0))))
     (path_components (BENCHMARKS_PATH (snd (command klee_A foo_bc (start_world disk0))))) = Inr Dir"
  by code_simp

theorem C3_witness:
  "natural_exit (shell stuck_env
      (join '' '' (projr (fst (command klee_A foo_bc (start_world disk0)))))
      ''/tmp'' (files (snd (command klee_A foo_bc (start_world disk0))))) = None
   \<and> fst (run stuck_env klee_A foo_bc (start_world disk0)) = Inr ()
   \<and> clock (snd (run stuck_env klee_A foo_bc (start_world disk0))) = 123
   \<and> map fst (trace (snd (run stuck_env klee_A foo_bc (start_world disk0))))
       = [0, 0, 120, 120, 123]
   \<and> drop 3 (map snd (trace (snd (run stuck_env klee_A foo_bc (start_world disk0)))))
       = [Killed, Exited]"
proof -
  let ?w1 = "snd (command klee_A foo_bc (start_world disk0))"
  have bp: "BENCHMARKS_PATH ?w1 = ''/tmp''"
    using command_keeps(3) [OF command_A_start] by (simp add: start_world_def)
  have never: "natural_exit (shell stuck_env
      (join '' '' (projr (fst (command klee_A foo_bc (start_world disk0)))))
      (BENCHMARKS_PATH ?w1) (files ?w1)) = None"
    by (simp add: stuck_env_def stuck_tool_def)
  have lat: "kill_latency (shell stuck_env
      (join '' '' (projr (fst (command klee_A foo_bc (start_world disk0)))))
      (BENCHMARKS_PATH ?w1) (files ?w1)) = Some 3"
    by (simp add: stuck_env_def stuck_tool_def)
  from C3_timeout_escalation [OF command_A_start cwd_A_start never] lat never bp
  show ?thesis
    by (simp add: start_world_def MAX_TIME_def WAIT_UNTIL_KILL_SCALE_def)
qed






lemma join_Cons: "zs \<noteq> [] \<Longrightarrow> join sep (x # zs) = x @ sep @ join sep zs"
  by (cases zs) simp_all

lemma join_cut: "join sep (xs @ [a @ sep @ b] @ ys) = join sep (xs @ [a, b] @ ys)"
proof (induction xs)
  case Nil
  show ?case by (cases ys) simp_all
next
  case (Cons x xs)
  then show ?case by (simp add: join_Cons)
qed

lemma sym_tokens_have_blank:
  assumes "t \<in> set (butlast (argument_list p))"
  shows "CHR '' '' \<in> set t"
  using assms by (auto simp: argument_list_def Let_def split: option.splits prod.splits)

lemma run_trace_starts:
  assumes cmd: "command self b w = (Inr tokens, w1)"
    and cwd: "stat (files w1) (path_components (BENCHMARKS_PATH w1)) = Inr Dir"
  shows "take 2 (drop (length (trace w)) (trace (snd (run E self b w)))) =
           [(clock w, Printed (''Running '' @ join '' '' tokens)),
            (clock w, Spawned (join '' '' tokens) (BENCHMARKS_PATH w1))]"
proof -
  let ?p = "shell E (join '' '' tokens) (BENCHMARKS_PATH w1) (files w1)"
  show ?thesis
  proof (cases "outlives_window ?p")
    case True
    show ?thesis
    proof (cases "kill_latency ?p")
      case None
      from run_blocked [OF cmd cwd True None] show ?thesis by simp
    next
      case (Some k)
      from run_killed [OF cmd cwd True Some] show ?thesis by simp
    qed
  next
    case False
    then obtain d rc where "natural_exit ?p = Some (d, rc)"
      "int d \<le> MAX_TIME * WAIT_UNTIL_KILL_SCALE"
      by (auto simp: outlives_window_def split: option.splits)
    from run_within_window [OF cmd cwd this] show ?thesis by simp
  qed
qed

text \<open>
  What the supervisor hands to the shell. Once the invocation is built and the child can
  be started, the first things a run does are to log and to spawn one command line, the
  tokens joined by single spaces. Every symbolic-parameter token but the last contains a
  space, and the join does not tell a token that contains a space from the two tokens on
  either side of that space: whatever the shell does with the command line, it cannot
  depend on where the token list was cut.
\<close>

theorem shell_command_line:
  assumes "command self b w = (Inr tokens, w1)"
    and "stat (files w1) (path_components (BENCHMARKS_PATH w1)) = Inr Dir"
  shows "take 2 (drop (length (trace w)) (trace (snd (run E self b w)))) =
           [(clock w, Printed (''Running '' @ join '' '' tokens)),
            (clock w, Spawned (join '' '' tokens) (BENCHMARKS_PATH w1))]
       \<and> (\<forall>t \<in> set (butlast (argument_list p)). CHR '' '' \<in> set t)
       \<and> join '' '' (xs @ [a @ '' '' @ c] @ ys) = join '' '' (xs @ [a, c] @ ys)"
  using run_trace_starts [OF assms] sym_tokens_have_blank join_cut by blast

theorem shell_command_line_witness:
  "take 2 (trace (snd (run quick_env klee_A foo_bc (start_world disk0)))) =
     [(0, Printed (''Running ''
            @ join '' '' (projr (fst (command klee_A foo_bc (start_world disk0)))))),
      (0, Spawned (join '' '' (projr (fst (command klee_A foo_bc (start_world disk0)))))
            ''/tmp'')]
   \<and> CHR '' '' \<in> set ''--sym-args 0 1 10''
   \<and> join '' '' [''--sym-args 0 1 10'', ''--sym-stdout'']
       = join '' '' [''--sym-args'', ''0 1 10'', ''--sym-stdout'']"
proof -
  let ?w1 = "snd (command klee_A foo_bc (start_world disk0))"
  have bp: "BENCHMARKS_PATH ?w1 = ''/tmp''"
    using command_keeps(3) [OF command_A_start] by (simp add: start_world_def)
  have mem: "''--sym-args 0 1 10'' \<in> set (butlast (argument_list SYM_ARGS_default))"
    by (simp add: default_tokens)
  from shell_command_line [OF command_A_start cwd_A_start, of quick_env SYM_ARGS_default
      "[]" "''--sym-args''" "''0 1 10''" "[''--sym-stdout'']"] mem bp
  show ?thesis by (simp add: start_world_def)
qed

section \<open>Comparing two runs\<close>

lemma save_diff_info_first_read_fails:
  assumes "read_fs (files w) (path_components (os_path_join out1 ''info'')) = Inl e"
  shows "save_diff E InfoFilesDiffer base out1 out2 w = (Inl e, w)"
  using assms
  by (simp add: save_diff_def read_originals_def Let_def io_bind_def open_read_def)

lemma save_diff_info_second_read_fails:
  assumes "read_fs (files w) (path_components (os_path_join out1 ''info'')) = Inr text1"
    and "read_fs (files w) (path_components (os_path_join out2 ''info'')) = Inl e"
  shows "save_diff E InfoFilesDiffer base out1 out2 w =
           (Inl e, w\<lparr>trace := trace w @ [(clock w, OpenedForReading (os_path_join out1 ''info''))]\<rparr>)"
  using assms
  by (simp add: save_diff_def read_originals_def Let_def io_bind_def open_read_def emit_def)

lemma save_diff_info_writes:
  assumes "read_fs (files w) (path_components (os_path_join out1 ''info'')) = Inr text1"
    and "read_fs (files w) (path_components (os_path_join out2 ''info'')) = Inr text2"
    and "write_fs (files w) (path_components (os_path_join base ''info'' @ DIFF_EXT))
           (concat (unified_diff E (readlines (translate_newlines text1))
                      (readlines (translate_newlines text2))
                      (os_path_join out1 ''info'') (os_path_join out2 ''info'') 3)) = Inr fs'"
  shows "save_diff E InfoFilesDiffer base out1 out2 w =
           (Inr (),
            w\<lparr>files := (files w)(path_components (os_path_join base ''info'' @ DIFF_EXT) \<mapsto>
                  File (concat (unified_diff E (readlines (translate_newlines text1))
                          (readlines (translate_newlines text2))
                          (os_path_join out1 ''info'') (os_path_join out2 ''info'') 3))),
              trace := trace w @
                [(clock w, OpenedForReading (os_path_join out1 ''info'')),
                 (clock w, OpenedForReading (os_path_join out2 ''info'')),
                 (clock w, OpenedForWriting (os_path_join base ''info'' @ DIFF_EXT))]\<rparr>)"
proof -
  from assms(3) have "fs' = (files w)(path_components (os_path_join base ''info'' @ DIFF_EXT) \<mapsto>
                  File (concat (unified_diff E (readlines (translate_newlines text1))
                          (readlines (translate_newlines text2))
                          (os_path_join out1 ''info'') (os_path_join out2 ''info'') 3)))"
    by (auto simp: write_fs_def split: if_splits sum.splits node.splits option.splits)
  with assms show ?thesis
    by (simp add: save_diff_def read_originals_def Let_def io_bind_def io_return_def
        open_read_def open_write_def emit_def)
qed

text \<open>
  Claim C8. \<^verbatim>\<open>difflib.unified_diff\<close> is a parameter. When both \<^verbatim>\<open>info\<close> files can be read
  and the artifact can be written, the raw-text variant returns normally and has written,
  to the path \<^verbatim>\<open>info\<close> under the base directory followed by \<^verbatim>\<open>.patch\<close>, the unified diff
  of the two line lists with context 3, labelled with the two \<^verbatim>\<open>info\<close> paths; the trace
  shows the artifact opened for writing after both files were read. When the first read
  fails nothing has happened; when the second fails the artifact was never opened and
  the file system is unchanged. This holds for all texts, so for two of three lines that
  differ in one line.
\<close>

theorem C8_raw_text_diff:
  "(\<forall>text1 text2 fs'.
      read_fs (files w) (path_components (os_path_join out1 ''info'')) = Inr text1
      \<and> read_fs (files w) (path_components (os_path_join out2 ''info'')) = Inr text2
      \<and> write_fs (files w) (path_components (os_path_join base ''info'' @ DIFF_EXT))
           (concat (unified_diff E (readlines (translate_newlines text1))
                      (readlines (translate_newlines text2))
                      (os_path_join out1 ''info'') (os_path_join out2 ''info'') 3)) = Inr fs'
      \<longrightarrow>
      save_diff E InfoFilesDiffer base out1 out2 w =
        (Inr (),
         w\<lparr>files := (files w)(path_components (os_path_join base ''info'' @ DIFF_EXT) \<mapsto>
               File (concat (unified_diff E (readlines (translate_newlines text1))
                       (readlines (translate_newlines text2))
                       (os_path_join out1 ''info'') (os_path_join out2 ''info'') 3))),
           trace := trace w @
             [(clock w, OpenedForReading (os_path_join out1 ''info'')),
              (clock w, OpenedForReading (os_path_join out2 ''info'')),
              (clock w, OpenedForWriting (os_path_join base ''info'' @ DIFF_EXT))]\<rparr>))
   \<and> endswith (os_path_join base ''info'' @ DIFF_EXT) ''.patch''
   \<and> (\<forall>e. read_fs (files w) (path_components (os_path_join out1 ''info'')) = Inl e \<longrightarrow>
          save_diff E InfoFilesDiffer base out1 out2 w = (Inl e, w))
   \<and> (\<forall>e text1.
          read_fs (files w) (path_components (os_path_join out1 ''info'')) = Inr text1
          \<and> read_fs (files w) (path_components (os_path_join out2 ''info'')) = Inl e \<longrightarrow>
          fst (save_diff E InfoFilesDiffer base out1 out2 w) = Inl e
          \<and> files (snd (save_diff E InfoFilesDiffer base out1 out2 w)) = files w
          \<and> trace (snd (save_diff E InfoFilesDiffer base out1 out2 w)) =
              trace w @ [(clock w, OpenedForReading (os_path_join out1 ''info''))])"
proof (intro conjI allI impI)
  show "endswith (os_path_join base ''info'' @ DIFF_EXT) ''.patch''"
    by (simp add: endswith_def DIFF_EXT_def suffix_def)
next
  fix text1 text2 fs'
  assume "read_fs (files w) (path_components (os_path_join out1 ''info'')) = Inr text1
      \<and> read_fs (files w) (path_components (os_path_join out2 ''info'')) = Inr text2
      \<and> write_fs (files w) (path_components (os_path_join base ''info'' @ DIFF_EXT))
           (concat (unified_diff E (readlines (translate_newlines text1))
                      (readlines (translate_newlines text2))
                      (os_path_join out1 ''info'') (os_path_join out2 ''info'') 3)) = Inr fs'"
  then show "save_diff E InfoFilesDiffer base out1 out2 w =
        (Inr (),
         w\<lparr>files := (files w)(path_components (os_path_join base ''info'' @ DIFF_EXT) \<mapsto>
               File (concat (unified_diff E (readlines (translate_newlines text1))
                       (readlines (translate_newlines text2))
                       (os_path_join out1 ''info'') (os_path_join out2 ''info'') 3))),
           trace := trace w @
             [(clock w, OpenedForReading (os_path_join out1 ''info'')),
              (clock w, OpenedForReading (os_path_join out2 ''info'')),
              (clock w, OpenedForWriting (os_path_join base ''info'' @ DIFF_EXT))]\<rparr>)"
    using save_diff_info_writes by blast
next
  fix e
  assume "read_fs (files w) (path_components (os_path_join out1 ''info'')) = Inl e"
  then show "save_diff E InfoFilesDiffer base out1 out2 w = (Inl e, w)"
    by (rule save_diff_info_first_read_fails)
next
  fix e text1
  assume a: "read_fs (files w) (path_components (os_path_join out1 ''info'')) = Inr text1
          \<and> read_fs (files w) (path_components (os_path_join out2 ''info'')) = Inl e"
  then have r: "save_diff E InfoFilesDiffer base out1 out2 w =
           (Inl e, w\<lparr>trace := trace w @ [(clock w, OpenedForReading (os_path_join out1 ''info''))]\<rparr>)"
    using save_diff_info_second_read_fails by blast
  show "fst (save_diff E InfoFilesDiffer base out1 out2 w) = Inl e" by (simp add: r)
  show "files (snd (save_diff E InfoFilesDiffer base out1 out2 w)) = files w" by (simp add: r)
  show "trace (snd (save_diff E InfoFilesDiffer base out1 out2 w)) =
              trace w @ [(clock w, OpenedForReading (os_path_join out1 ''info''))]"
    by (simp add: r)
qed

lemma read_A_done:
  "read_fs (files (start_world disk_done)) (path_components (os_path_join ''/tmp/foo.bc-klee-out/A'' ''info''))
     = Inr [CHR ''a'', LF, CHR ''A'', LF, CHR ''c'', LF]"
  by code_simp

lemma read_B_done:
  "read_fs (files (start_world disk_done)) (path_components (os_path_join ''/tmp/foo.bc-klee-out/B'' ''info''))
     = Inr [CHR ''a'', LF, CHR ''B'', LF, CHR ''c'', LF]"
  by code_simp

lemma expected_diff:
  "concat (unified_diff quick_env
     (readlines (translate_newlines [CHR ''a'', LF, CHR ''A'', LF, CHR ''c'', LF]))
     (readlines (translate_newlines [CHR ''a'', LF, CHR ''B'', LF, CHR ''c'', LF]))
     (os_path_join ''/tmp/foo.bc-klee-out/A'' ''info'')
     (os_path_join ''/tmp/foo.bc-klee-out/B'' ''info'') 3)
   = ''--- /tmp/foo.bc-klee-out/A/info'' @ [LF] @ ''+++ /tmp/foo.bc-klee-out/B/info'' @ [LF]
     @ ''@@ -1,3 +1,3 @@'' @ [LF] @ '' a'' @ [LF] @ ''-A'' @ [LF] @ ''+B'' @ [LF] @ '' c'' @ [LF]"
  by code_simp

lemma artifact_done:
  "path_components (os_path_join ''/tmp/foo.bc-klee-out'' ''info'' @ DIFF_EXT)
     = [''tmp'', ''foo.bc-klee-out'', ''info.patch'']"
  by code_simp

lemma write_done:
  "\<not> isl (write_fs (files (start_world disk_done)) [''tmp'', ''foo.bc-klee-out'', ''info.patch'']
      (''--- /tmp/foo.bc-klee-out/A/info'' @ [LF] @ ''+++ /tmp/foo.bc-klee-out/B/info'' @ [LF]
     @ ''@@ -1,3 +1,3 @@'' @ [LF] @ '' a'' @ [LF] @ ''-A'' @ [LF] @ ''+B'' @ [LF] @ '' c'' @ [LF]))"
  by code_simp

lemma result_file:
  "r = (Inr (), w\<lparr>files := fs(p \<mapsto> File c), trace := t\<rparr>)
   \<Longrightarrow> fst r = Inr () \<and> files (snd r) p = Some (File c)"
  by simp

theorem C8_witness:
  "read_fs (files (start_world disk_done))
     (path_components (os_path_join ''/tmp/foo.bc-klee-out/A'' ''info''))
     = Inr [CHR ''a'', LF, CHR ''A'', LF, CHR ''c'', LF]
   \<and> read_fs (files (start_world disk_done))
       (path_components (os_path_join ''/tmp/foo.bc-klee-out/B'' ''info''))
     = Inr [CHR ''a'', LF, CHR ''B'', LF, CHR ''c'', LF]
   \<and> fst (save_diff quick_env InfoFilesDiffer ''/tmp/foo.bc-klee-out''
            ''/tmp/foo.bc-klee-out/A'' ''/tmp/foo.bc-klee-out/B'' (start_world disk_done)) = Inr ()
   \<and> files (snd (save_diff quick_env InfoFilesDiffer ''/tmp/foo.bc-klee-out''
            ''/tmp/foo.bc-klee-out/A'' ''/tmp/foo.bc-klee-out/B'' (start_world disk_done)))
       [''tmp'', ''foo.bc-klee-out'', ''info.patch'']
     = Some (File (''--- /tmp/foo.bc-klee-out/A/info'' @ [LF]
                   @ ''+++ /tmp/foo.bc-klee-out/B/info'' @ [LF]
                   @ ''@@ -1,3 +1,3 @@'' @ [LF]
                   @ '' a'' @ [LF] @ ''-A'' @ [LF] @ ''+B'' @ [LF] @ '' c'' @ [LF]))"
proof -
  let ?w = "start_world disk_done"
  let ?d = "''--- /tmp/foo.bc-klee-out/A/info'' @ [LF]
                   @ ''+++ /tmp/foo.bc-klee-out/B/info'' @ [LF]
                   @ ''@@ -1,3 +1,3 @@'' @ [LF]
                   @ '' a'' @ [LF] @ ''-A'' @ [LF] @ ''+B'' @ [LF] @ '' c'' @ [LF]"
  obtain fs' where wr: "write_fs (files ?w) [''tmp'', ''foo.bc-klee-out'', ''info.patch''] ?d = Inr fs'"
    using write_done by (cases "write_fs (files ?w) [''tmp'', ''foo.bc-klee-out'', ''info.patch''] ?d") auto
  have hyp: "read_fs (files ?w) (path_components (os_path_join ''/tmp/foo.bc-klee-out/A'' ''info''))
        = Inr [CHR ''a'', LF, CHR ''A'', LF, CHR ''c'', LF]
      \<and> read_fs (files ?w) (path_components (os_path_join ''/tmp/foo.bc-klee-out/B'' ''info''))
        = Inr [CHR ''a'', LF, CHR ''B'', LF, CHR ''c'', LF]
      \<and> write_fs (files ?w) (path_components (os_path_join ''/tmp/foo.bc-klee-out'' ''info'' @ DIFF_EXT))
           (concat (unified_diff quick_env
              (readlines (translate_newlines [CHR ''a'', LF, CHR ''A'', LF, CHR ''c'', LF]))
              (readlines (translate_newlines [CHR ''a'', LF, CHR ''B'', LF, CHR ''c'', LF]))
              (os_path_join ''/tmp/foo.bc-klee-out/A'' ''info'')
              (os_path_join ''/tmp/foo.bc-klee-out/B'' ''info'') 3)) = Inr fs'"
    using read_A_done read_B_done wr by (simp only: expected_diff artifact_done) 
  from C8_raw_text_diff [of ?w "''/tmp/foo.bc-klee-out/A''" "''/tmp/foo.bc-klee-out/B''"
      "''/tmp/foo.bc-klee-out''" quick_env] hyp
  have eq: "save_diff quick_env InfoFilesDiffer ''/tmp/foo.bc-klee-out''
            ''/tmp/foo.bc-klee-out/A'' ''/tmp/foo.bc-klee-out/B'' ?w =
        (Inr (),
         ?w\<lparr>files := (files ?w)(path_components (os_path_join ''/tmp/foo.bc-klee-out'' ''info'' @ DIFF_EXT) \<mapsto>
               File (concat (unified_diff quick_env
              (readlines (translate_newlines [CHR ''a'', LF, CHR ''A'', LF, CHR ''c'', LF]))
              (readlines (translate_newlines [CHR ''a'', LF, CHR ''B'', LF, CHR ''c'', LF]))
              (os_path_join ''/tmp/foo.bc-klee-out/A'' ''info'')
              (os_path_join ''/tmp/foo.bc-klee-out/B'' ''info'') 3))),
           trace := trace ?w @
             [(clock ?w, OpenedForReading (os_path_join ''/tmp/foo.bc-klee-out/A'' ''info'')),
              (clock ?w, OpenedForReading (os_path_join ''/tmp/foo.bc-klee-out/B'' ''info'')),
              (clock ?w, OpenedForWriting (os_path_join ''/tmp/foo.bc-klee-out'' ''info'' @ DIFF_EXT))]\<rparr>)"
    by blast
  note eq' = eq [unfolded expected_diff artifact_done]
  from result_file [OF eq']
  have "fst (save_diff quick_env InfoFilesDiffer ''/tmp/foo.bc-klee-out''
            ''/tmp/foo.bc-klee-out/A'' ''/tmp/foo.bc-klee-out/B'' ?w) = Inr ()
     \<and> files (snd (save_diff quick_env InfoFilesDiffer ''/tmp/foo.bc-klee-out''
            ''/tmp/foo.bc-klee-out/A'' ''/tmp/foo.bc-klee-out/B'' ?w))
       [''tmp'', ''foo.bc-klee-out'', ''info.patch''] = Some (File ?d)" .
  with read_A_done read_B_done show ?thesis by blast
qed

section \<open>Skipping finished benchmarks\<close>

lemma spawns_simps:
  "spawns (w\<lparr>files := f\<rparr>) = spawns w"
  "spawns (w\<lparr>clock := c\<rparr>) = spawns w"
  "spawns (w\<lparr>SYM_ARGS := d\<rparr>) = spawns w"
  "spawns (emit (Printed s) w) = spawns w"
  "spawns (emit (Spawned cmd cwd) w) = spawns w + 1"
  "spawns (emit Killed w) = spawns w"
  "spawns (emit Exited w) = spawns w"
  "spawns (emit (RanKleeStats p) w) = spawns w"
  "spawns (emit (OpenedForReading p) w) = spawns w"
  "spawns (emit (OpenedForWriting p) w) = spawns w"
  by (simp_all add: spawns_def emit_def)

lemma emit_fields:
  "files (emit e w) = files w"
  "BENCHMARKS_PATH (emit e w) = BENCHMARKS_PATH w"
  "SYM_ARGS (emit e w) = SYM_ARGS w"
  "clock (emit e w) = clock w"
  by (simp_all add: emit_def)

lemma command_spawns: "spawns (snd (command self b w)) = spawns w"
  by (simp add: command_unfold Let_def spawns_simps split: sum.splits)

lemma run_spawns_le: "spawns w \<le> spawns (snd (run E self b w))"
proof (cases "command self b w")
  case (Pair r w1)
  then have s1: "spawns w1 = spawns w" using command_spawns [of self b w] by simp
  show ?thesis
  proof (cases r)
    case (Inl e)
    with Pair s1 show ?thesis by (simp add: run_def io_bind_def)
  next
    case (Inr tokens)
    with Pair s1 show ?thesis
      by (auto simp: run_def io_bind_def io_return_def Let_def log_def Popen_def
          proc_wait_timeout_def proc_kill_def proc_wait_killed_def spawns_simps emit_fields
          split: sum.splits node.splits option.splits prod.splits if_splits)
  qed
qed

lemma run_Inr_spawns:
  assumes "fst (run E self b w) = Inr ()"
  shows "spawns (snd (run E self b w)) = spawns w + 1"
proof (cases "command self b w")
  case (Pair r w1)
  then have s1: "spawns w1 = spawns w" using command_spawns [of self b w] by simp
  show ?thesis
  proof (cases r)
    case (Inl e)
    with Pair assms show ?thesis by (simp add: run_def io_bind_def)
  next
    case (Inr tokens)
    with Pair s1 assms show ?thesis
      by (auto simp: run_def io_bind_def io_return_def Let_def log_def Popen_def
          proc_wait_timeout_def proc_kill_def proc_wait_killed_def spawns_simps emit_fields
          split: sum.splits node.splits option.splits prod.splits if_splits)
  qed
qed

lemma run_started_spawns:
  assumes "command self b w = (Inr tokens, w1)"
    and "stat (files w1) (path_components (BENCHMARKS_PATH w1)) = Inr Dir"
  shows "spawns (snd (run E self b w)) = spawns w + 1"
proof -
  have s1: "spawns w1 = spawns w" using command_spawns [of self b w] assms(1) by simp
  with assms show ?thesis
    by (auto simp: run_def io_bind_def io_return_def Let_def log_def Popen_def
        proc_wait_timeout_def proc_kill_def proc_wait_killed_def spawns_simps emit_fields
        split: sum.splits node.splits option.splits prod.splits if_splits)
qed

lemma print_spawns: "spawns (snd (print_estimated_time_left n w)) = spawns w"
  by (simp add: print_estimated_time_left_def spawns_simps split: sum.splits)

lemma save_diff_spawns: "spawns (snd (comparator_save_diff E cmp b w)) = spawns w"
  by (cases "differ cmp")
     (auto simp: comparator_save_diff_def save_diff_def read_originals_def Let_def
        call_klee_stats_on_def open_read_def open_write_def io_bind_def io_return_def
        spawns_simps split: sum.splits prod.splits)

lemma strict_prefix_butlast:
  assumes "strict_prefix q cs"
  shows "prefix q (butlast cs)"
proof -
  from assms obtain r where r: "cs = q @ r" "r \<noteq> []" by (auto simp: strict_prefix_def prefix_def)
  then have "butlast cs = q @ butlast r" by (simp add: butlast_append)
  then show ?thesis by simp
qed

lemma set_ancestors: "set (ancestors cs) = {q. strict_prefix q cs}"
proof -
  have "prefixes cs = butlast (prefixes cs) @ [cs]"
    by (metis append_butlast_last_id last_prefixes prefixes_not_Nil)
  moreover have "distinct (prefixes cs)" by (rule distinct_prefixes)
  ultimately have "cs \<notin> set (butlast (prefixes cs))"
    by (metis distinct_append disjoint_iff list.set_intros(1))
  moreover have "set (butlast (prefixes cs)) \<subseteq> set (prefixes cs)"
    by (meson in_set_butlastD subsetI)
  moreover have "set (prefixes cs) \<subseteq> insert cs (set (butlast (prefixes cs)))"
    using \<open>prefixes cs = butlast (prefixes cs) @ [cs]\<close>
    by (metis Un_insert_right append_Nil2 list.simps(15) set_append subset_refl)
  ultimately show ?thesis
    by (auto simp: ancestors_def strict_prefix_def in_set_prefixes)
qed

lemma stat_Inr_iff:
  "stat fs cs = Inr n \<longleftrightarrow>
     (\<forall>q. strict_prefix q cs \<longrightarrow> \<not> is_file (node_at fs q)) \<and> node_at fs cs = Some n"
  by (auto simp: stat_def list_ex_iff set_ancestors split: option.splits)

lemma write_then_stat:
  assumes "write_fs fs cs text = Inr fs'"
  shows "stat fs' cs = Inr (File text)"
proof -
  from assms have ne: "cs \<noteq> []"
    and par: "stat fs (butlast cs) = Inr Dir"
    and fs': "fs' = fs(cs \<mapsto> File text)"
    by (auto simp: write_fs_def split: if_splits sum.splits node.splits option.splits)
  from par have anc: "\<And>q. strict_prefix q (butlast cs) \<Longrightarrow> \<not> is_file (node_at fs q)"
    and dir: "node_at fs (butlast cs) = Some Dir"
    by (simp_all add: stat_Inr_iff)
  have "\<not> is_file (node_at fs' q)" if q: "strict_prefix q cs" for q
  proof -
    from q have "q \<noteq> cs" by (simp add: strict_prefix_def)
    then have same: "node_at fs' q = node_at fs q" by (simp add: fs' node_at_def)
    from strict_prefix_butlast [OF q] have "q = butlast cs \<or> strict_prefix q (butlast cs)"
      by (auto simp: strict_prefix_def)
    then show ?thesis using anc dir same by (auto simp: is_file_def)
  qed
  moreover have "node_at fs' cs = Some (File text)" using ne by (simp add: fs' node_at_def)
  ultimately show ?thesis by (simp add: stat_Inr_iff)
qed

lemma marker_path:
  "os_path_join base (KLEE_STATS_DIFF @ DIFF_EXT) = os_path_join base KLEE_STATS_DIFF @ DIFF_EXT"
  by (simp add: os_path_join_def startswith_def KLEE_STATS_DIFF_def DIFF_EXT_def)

lemma marker_name: "KLEE_STATS_DIFF @ DIFF_EXT = ''klee_stats_diff.patch''"
  by (simp add: KLEE_STATS_DIFF_def DIFF_EXT_def)

lemma statistics_diff_marks:
  assumes "differ cmp = KleeStatsDiffer"
    and "fst (comparator_save_diff E cmp b w) = Inr ()"
  shows "has_both_solutions b (snd (comparator_save_diff E cmp b w))"
proof -
  let ?p = "os_path_join (output_base_dir (entry_path b)) KLEE_STATS_DIFF @ DIFF_EXT"
  from assms obtain w1 content fs' where
    wr: "write_fs (files w1) (path_components ?p) content = Inr fs'"
    and w': "snd (comparator_save_diff E cmp b w) = (emit (OpenedForWriting ?p) w1)\<lparr>files := fs'\<rparr>"
    by (auto simp: comparator_save_diff_def save_diff_def read_originals_def Let_def
        call_klee_stats_on_def open_write_def io_bind_def io_return_def
        split: sum.splits prod.splits)
  from write_then_stat [OF wr] show ?thesis
    by (simp add: has_both_solutions_def os_path_exists_def marker_path w')
qed

lemma process_benchmark_Inr:
  assumes "fst (process_benchmark E bd my cmp n b w) = Inr ()"
  shows "spawns (snd (process_benchmark E bd my cmp n b w)) = spawns w + 2"
    and "differ cmp = KleeStatsDiffer
         \<Longrightarrow> has_both_solutions b (snd (process_benchmark E bd my cmp n b w))"
proof -
  obtain r0 w0 where p0: "print_estimated_time_left n w = (r0, w0)" by (cases "print_estimated_time_left n w")
  obtain r1 w1 where p1: "run E bd b w0 = (r1, w1)" by (cases "run E bd b w0")
  obtain r2 w2 where p2: "run E my b w1 = (r2, w2)" by (cases "run E my b w1")
  from assms p0 p1 p2 have ok: "r0 = Inr ()" "r1 = Inr ()" "r2 = Inr ()"
    and res: "process_benchmark E bd my cmp n b w = comparator_save_diff E cmp b w2"
    by (auto simp: process_benchmark_def io_bind_def split: sum.splits)
  have "spawns w0 = spawns w" using print_spawns [of n w] p0 by simp
  moreover have "spawns w1 = spawns w0 + 1" using run_Inr_spawns [of E bd b w0] p1 ok by simp
  moreover have "spawns w2 = spawns w1 + 1" using run_Inr_spawns [of E my b w1] p2 ok by simp
  ultimately show "spawns (snd (process_benchmark E bd my cmp n b w)) = spawns w + 2"
    by (simp add: res save_diff_spawns)
  show "has_both_solutions b (snd (process_benchmark E bd my cmp n b w))"
    if "differ cmp = KleeStatsDiffer"
    using statistics_diff_marks [OF that, of E b w2] assms by (simp add: res)
qed

lemma loop_one_not_skipped:
  assumes "\<not> has_both_solutions b w"
  shows "fst (scheduler_loop E bd my cmp n i [b] w) = fst (process_benchmark E bd my cmp (n - i) b w)"
    and "snd (scheduler_loop E bd my cmp n i [b] w) = snd (process_benchmark E bd my cmp (n - i) b w)"
  using assms by (auto split: prod.splits sum.splits)

text \<open>
  Claim C1, amended. The scheduler skips a benchmark, doing nothing at all for it, when
  \<^verbatim>\<open>klee_stats_diff.patch\<close> exists in the benchmark's base output directory, whatever
  comparison strategy is in use: that file is the one thing \<^verbatim>\<open>has_both_solutions\<close> looks
  at. A benchmark that is not skipped and whose processing returns normally got exactly
  two tool invocations. The derived-statistics strategy, the one \<^verbatim>\<open>main\<close> uses, writes
  exactly that file: after such a pass the benchmark is marked and a second pass does
  nothing for it.
\<close>

theorem C1_skip_marker:
  "(has_both_solutions b w \<longrightarrow>
      scheduler_loop E bd my cmp n i (b # rest) w = scheduler_loop E bd my cmp n (i + 1) rest w
      \<and> scheduler_loop E bd my cmp n i [b] w = (Inr (), w))
   \<and> has_both_solutions b w =
       os_path_exists (os_path_join (output_base_dir (entry_path b)) ''klee_stats_diff.patch'') w
   \<and> (\<not> has_both_solutions b w \<longrightarrow>
        fst (scheduler_loop E bd my cmp n i [b] w) = Inr () \<longrightarrow>
        spawns (snd (scheduler_loop E bd my cmp n i [b] w)) = spawns w + 2)
   \<and> (differ cmp = KleeStatsDiffer \<longrightarrow>
        \<not> has_both_solutions b w \<longrightarrow>
        fst (scheduler_loop E bd my cmp n i [b] w) = Inr () \<longrightarrow>
        has_both_solutions b (snd (scheduler_loop E bd my cmp n i [b] w))
        \<and> scheduler_loop E bd my cmp n i [b] (snd (scheduler_loop E bd my cmp n i [b] w)) =
            (Inr (), snd (scheduler_loop E bd my cmp n i [b] w)))"
proof (intro conjI impI)
  assume "has_both_solutions b w"
  then show "scheduler_loop E bd my cmp n i (b # rest) w
               = scheduler_loop E bd my cmp n (i + 1) rest w"
    and "scheduler_loop E bd my cmp n i [b] w = (Inr (), w)"
    by simp_all
next
  show "has_both_solutions b w =
       os_path_exists (os_path_join (output_base_dir (entry_path b)) ''klee_stats_diff.patch'') w"
    by (simp add: has_both_solutions_def marker_name)
next
  assume a: "\<not> has_both_solutions b w" "fst (scheduler_loop E bd my cmp n i [b] w) = Inr ()"
  from a(2) have "fst (process_benchmark E bd my cmp (n - i) b w) = Inr ()"
    by (simp only: loop_one_not_skipped(1) [OF a(1)])
  from process_benchmark_Inr(1) [OF this]
  show "spawns (snd (scheduler_loop E bd my cmp n i [b] w)) = spawns w + 2"
    by (simp only: loop_one_not_skipped(2) [OF a(1)])
next
  assume s: "differ cmp = KleeStatsDiffer"
    and a: "\<not> has_both_solutions b w" "fst (scheduler_loop E bd my cmp n i [b] w) = Inr ()"
  from a(2) have "fst (process_benchmark E bd my cmp (n - i) b w) = Inr ()"
    by (simp only: loop_one_not_skipped(1) [OF a(1)])
  from process_benchmark_Inr(2) [OF this s]
  show m: "has_both_solutions b (snd (scheduler_loop E bd my cmp n i [b] w))"
    by (simp only: loop_one_not_skipped(2) [OF a(1)])
  then show "scheduler_loop E bd my cmp n i [b] (snd (scheduler_loop E bd my cmp n i [b] w)) =
            (Inr (), snd (scheduler_loop E bd my cmp n i [b] w))"
    by simp
qed

lemma two_raw_text_passes:
  "(case first_pass of
      (r1, w1) \<Rightarrow>
        (case scheduler_loop quick_env klee_A klee_B raw_text_comparator 1 0 [foo_bc] w1 of
           (r2, w2) \<Rightarrow>
             r1 = Inr () \<and> spawns w1 = 2
             \<and> os_path_exists ''/tmp/foo.bc-klee-out/A/info'' w1
             \<and> os_path_exists ''/tmp/foo.bc-klee-out/B/info'' w1
             \<and> os_path_exists ''/tmp/foo.bc-klee-out/info.patch'' w1
             \<and> r2 = Inr () \<and> spawns w2 = 4))"
  by code_simp

text \<open>
  Claim C1 says that with the raw-text variant a second pass invokes no tool once the
  first has written \<^verbatim>\<open>info.patch\<close>. In the small experiment the first pass returns
  normally after two invocations and leaves both \<^verbatim>\<open>info\<close> files and \<^verbatim>\<open>info.patch\<close>; the
  second pass, started on that state, invokes the tool twice more.
\<close>

theorem C1_counterexample:
  "fst first_pass = Inr ()
   \<and> spawns (snd first_pass) = 2
   \<and> os_path_exists ''/tmp/foo.bc-klee-out/A/info'' (snd first_pass)
   \<and> os_path_exists ''/tmp/foo.bc-klee-out/B/info'' (snd first_pass)
   \<and> os_path_exists ''/tmp/foo.bc-klee-out/info.patch'' (snd first_pass)
   \<and> fst second_pass = Inr ()
   \<and> spawns (snd second_pass) = 4"
proof -
  obtain r1 w1 where f: "first_pass = (r1, w1)" by (cases first_pass)
  obtain r2 w2 where
    s: "scheduler_loop quick_env klee_A klee_B raw_text_comparator 1 0 [foo_bc] w1 = (r2, w2)"
    by (cases "scheduler_loop quick_env klee_A klee_B raw_text_comparator 1 0 [foo_bc] w1")
  from two_raw_text_passes have "r1 = Inr () \<and> spawns w1 = 2
             \<and> os_path_exists ''/tmp/foo.bc-klee-out/A/info'' w1
             \<and> os_path_exists ''/tmp/foo.bc-klee-out/B/info'' w1
             \<and> os_path_exists ''/tmp/foo.bc-klee-out/info.patch'' w1
             \<and> r2 = Inr () \<and> spawns w2 = 4"
    by (simp only: f s prod.case)
  then show ?thesis
    by (simp only: second_pass_def f s fst_conv snd_conv)
qed

lemma statistics_pass:
  "(case scheduler_loop quick_env klee_A klee_B statistics_comparator 1 0 [foo_bc]
           (start_world disk_tools) of
      (r, w) \<Rightarrow> r = Inr () \<and> \<not> has_both_solutions foo_bc (start_world disk_tools))"
  by code_simp

theorem C1_witness:
  "\<not> has_both_solutions foo_bc (start_world disk_tools)
   \<and> fst (scheduler_loop quick_env klee_A klee_B statistics_comparator 1 0 [foo_bc]
            (start_world disk_tools)) = Inr ()
   \<and> spawns (snd (scheduler_loop quick_env klee_A klee_B statistics_comparator 1 0 [foo_bc]
                    (start_world disk_tools))) = 2
   \<and> has_both_solutions foo_bc
        (snd (scheduler_loop quick_env klee_A klee_B statistics_comparator 1 0 [foo_bc]
                (start_world disk_tools)))
   \<and> spawns (snd (scheduler_loop quick_env klee_A klee_B statistics_comparator 1 0 [foo_bc]
        (snd (scheduler_loop quick_env klee_A klee_B statistics_comparator 1 0 [foo_bc]
                (start_world disk_tools))))) = 2"
proof -
  let ?pass = "scheduler_loop quick_env klee_A klee_B statistics_comparator 1 0 [foo_bc]"
  have not_marked: "\<not> has_both_solutions foo_bc (start_world disk_tools)"
    and ok: "fst (?pass (start_world disk_tools)) = Inr ()"
    using statistics_pass by (auto split: prod.splits)
  have stats: "differ statistics_comparator = KleeStatsDiffer"
    by (simp add: statistics_comparator_def)
  have zero: "spawns (start_world disk_tools) = 0"
    by (simp add: spawns_def start_world_def)
  note inst = C1_skip_marker [of foo_bc "start_world disk_tools" quick_env klee_A klee_B
      statistics_comparator 1 0 "[]"]
  from inst not_marked ok
  have two: "spawns (snd (?pass (start_world disk_tools))) = spawns (start_world disk_tools) + 2"
    by blast
  from inst stats not_marked ok
  have again: "has_both_solutions foo_bc (snd (?pass (start_world disk_tools)))
     \<and> ?pass (snd (?pass (start_world disk_tools))) = (Inr (), snd (?pass (start_world disk_tools)))"
    by blast
  then have "spawns (snd (?pass (snd (?pass (start_world disk_tools))))) = 2"
    using two zero by simp
  with not_marked ok two zero again show ?thesis by simp
qed

end
